theory Spec2Isabelle
  imports Complex_Main "HOL-Library.Char_ord" "HOL-Library.List_Lexorder"
begin

section \<open>Water-quality API (src/api/app.py): data model\<close>

text \<open>
  Conventions of the embedding.
  \<^item> A float64 cell is a \<open>real option\<close>: \<open>None\<close> is NaN (a missing value), \<open>Some x\<close>
    the number \<open>x\<close>. Arithmetic is exact (no rounding, no infinities); every
    comparison with NaN is false, as in IEEE arithmetic.
  \<^item> A DataFrame is its list of column names and its rows in positional order, each
    row carrying its index label. \<open>pd.read_csv\<close> labels the rows \<open>0, 1, 2, ...\<close>;
    \<open>dropna\<close> and boolean indexing keep the labels of the rows they keep.
  \<^item> A timestamp cell of a DataFrame is a number (its position on the time axis,
    \<open>None\<close> for NaT); in a stored document it is the ISO-8601 string that
    \<open>isoformat\<close> returns, or still NaT.
  \<^item> The columns of a frame are float64 when the file has a data row; a file with a
    header and no data row gives columns of dtype object.
  \<^item> Query parameters are given after werkzeug's conversion: \<open>None\<close> stands for a
    parameter that is absent or that \<open>type=\<close> could not convert (both yield the
    default).
\<close>

record 't observation =
  timestamp :: "'t option"
  latitude :: "real option"
  longitude :: "real option"
  temperature :: "real option"
  salinity :: "real option"
  odo :: "real option"

record frame =
  columns :: "string list"
  rows :: "(nat \<times> real observation) list"
  float_dtype :: bool

text \<open>The timestamp of a stored document.\<close>

datatype doc_time = NaT | Iso string

text \<open>\<open>df[c]\<close> for one row: the cell of column \<open>c\<close>.\<close>

definition cell :: "string \<Rightarrow> real observation \<Rightarrow> real option" where
  "cell c r =
     (if c = ''timestamp'' then timestamp r
      else if c = ''latitude'' then latitude r
      else if c = ''longitude'' then longitude r
      else if c = ''temperature'' then temperature r
      else if c = ''salinity'' then salinity r
      else if c = ''odo'' then odo r
      else None)"

definition column :: "string \<Rightarrow> frame \<Rightarrow> real option list" where
  "column c df = map (\<lambda>lr. cell c (snd lr)) (rows df)"

text \<open>
  \<open>pd.read_csv\<close>: the rows of the file, labelled by a RangeIndex; without a data row
  no column is inferred to be numeric.
\<close>

definition read_csv :: "string list \<Rightarrow> real observation list \<Rightarrow> frame" where
  "read_csv cols rs = \<lparr>columns = cols, rows = zip [0..<length rs] rs, float_dtype = (rs \<noteq> [])\<rparr>"

text \<open>
  \<open>df[cols]\<close>: column selection keeps every row. The frame's columns are the names
  in \<open>columns\<close>; the operations read a cell only for a name that is among them.
\<close>

definition select_columns :: "string list \<Rightarrow> frame \<Rightarrow> frame" where
  "select_columns cols df = df\<lparr>columns := cols\<rparr>"

text \<open>\<open>df.dropna(subset=cols)\<close>: keep the rows with no NaN in the columns of \<open>cols\<close>.\<close>

definition dropna :: "string list \<Rightarrow> frame \<Rightarrow> frame" where
  "dropna cols df =
     df\<lparr>rows := filter (\<lambda>lr. list_all (\<lambda>c. cell c (snd lr) \<noteq> None) cols) (rows df)\<rparr>"

text \<open>\<open>df[mask]\<close>: boolean indexing by position.\<close>

definition boolean_index :: "bool list \<Rightarrow> frame \<Rightarrow> frame" where
  "boolean_index bs df = df\<lparr>rows := map fst (filter snd (zip (rows df) bs))\<rparr>"

section \<open>Numeric routines of numpy, scipy and pandas\<close>

definition mean :: "real list \<Rightarrow> real" where
  "mean xs = sum_list xs / real (length xs)"

definition sumsq :: "real list \<Rightarrow> real" where
  "sumsq xs = sum_list (map (\<lambda>x. (x - mean xs)\<^sup>2) xs)"

text \<open>\<open>np.std\<close> with its default \<open>ddof=0\<close>: the population standard deviation.\<close>

definition np_std :: "real list \<Rightarrow> real" where
  "np_std xs = sqrt (sumsq xs / real (length xs))"

text \<open>pandas' \<open>std\<close> (\<open>ddof=1\<close>): the sample standard deviation, NaN below two values.\<close>

definition pd_std :: "real list \<Rightarrow> real option" where
  "pd_std xs = (if length xs < 2 then None else Some (sqrt (sumsq xs / real (length xs - 1))))"

text \<open>The values of a column that are not NaN.\<close>

definition omit_nan :: "real option list \<Rightarrow> real list" where
  "omit_nan a = concat (map (\<lambda>x. case x of None \<Rightarrow> [] | Some v \<Rightarrow> [v]) a)"

text \<open>
  \<open>scipy.stats.zscore\<close> of one column (\<open>ddof=0\<close>), mean and deviation taken over the
  values that are not NaN (\<open>nan_policy='omit'\<close>; without NaN in the input this is
  the default policy too). \<open>zscore_entry vs x\<close> is the entry for the cell \<open>x\<close> of a
  column whose values are \<open>vs\<close>: a NaN cell stays NaN, and when the deviation is
  zero every \<open>x - mean\<close> is zero as well and the quotient is NaN.
\<close>

definition zscore_entry :: "real list \<Rightarrow> real option \<Rightarrow> real option" where
  "zscore_entry vs x =
     (case x of None \<Rightarrow> None
      | Some v \<Rightarrow> if np_std vs = 0 then None else Some ((v - mean vs) / np_std vs))"

definition zscore :: "real option list \<Rightarrow> real option list" where
  "zscore a = map (zscore_entry (omit_nan a)) a"

definition np_abs :: "real option \<Rightarrow> real option" where
  "np_abs x = map_option abs x"

text \<open>Float comparison and arithmetic: a comparison with NaN is false, NaN propagates.\<close>

definition f_less :: "real option \<Rightarrow> real option \<Rightarrow> bool" where
  "f_less x y = (case x of None \<Rightarrow> False | Some a \<Rightarrow> (case y of None \<Rightarrow> False | Some b \<Rightarrow> a < b))"

definition f_add :: "real option \<Rightarrow> real option \<Rightarrow> real option" where
  "f_add x y = (case x of None \<Rightarrow> None | Some a \<Rightarrow> map_option (\<lambda>b. a + b) y)"

definition f_sub :: "real option \<Rightarrow> real option \<Rightarrow> real option" where
  "f_sub x y = (case x of None \<Rightarrow> None | Some a \<Rightarrow> map_option (\<lambda>b. a - b) y)"

definition f_mul :: "real option \<Rightarrow> real option \<Rightarrow> real option" where
  "f_mul x y = (case x of None \<Rightarrow> None | Some a \<Rightarrow> map_option (\<lambda>b. a * b) y)"

text \<open>
  \<open>Series.quantile(q)\<close>, linear interpolation between the order statistics at
  \<open>\<lfloor>h\<rfloor>\<close> and \<open>\<lfloor>h\<rfloor> + 1\<close> for \<open>h = q (n - 1)\<close>; NaN on an empty series.
\<close>

definition quantile :: "real \<Rightarrow> real list \<Rightarrow> real option" where
  "quantile q xs =
     (if xs = [] then None
      else let s = sort xs; n = length xs; h = q * real (n - 1);
               lo = nat \<lfloor>h\<rfloor>; hi = min (lo + 1) (n - 1)
           in Some (s ! lo + (h - real lo) * (s ! hi - s ! lo)))"

section \<open>Ingestion: \<open>load_and_clean_data\<close>\<close>

record state =
  collection :: "doc_time observation list"
  cleaned_df :: "frame option"
  original_count :: int
  removed_count :: int

definition init_state :: state where
  "init_state = \<lparr>collection = [], cleaned_df = None, original_count = 0, removed_count = 0\<rparr>"

definition required_columns :: "string list" where
  "required_columns =
     [''timestamp'', ''latitude'', ''longitude'', ''temperature'', ''salinity'', ''odo'']"

definition numeric_columns :: "string list" where
  "numeric_columns = [''temperature'', ''salinity'', ''odo'']"

text \<open>Lines 69-70: \<open>(np.abs(stats.zscore(df[cols], nan_policy='omit')) < 3.0).all(axis=1)\<close>.\<close>

definition zscore_mask :: "string list \<Rightarrow> frame \<Rightarrow> bool list" where
  "zscore_mask cols df =
     (let z_scores = map (\<lambda>c. map np_abs (zscore (column c df))) cols
      in map (\<lambda>i. list_all (\<lambda>zc. f_less (zc ! i) (Some 3)) z_scores) [0..<length (rows df)])"

text \<open>
  \<open>to_dict('records')\<close> and lines 86-89: one document per row, holding the columns of
  the frame; a timestamp that is not NaT becomes its ISO string, a NaT stays in the
  document.
\<close>

definition to_document :: "(real \<Rightarrow> string) \<Rightarrow> string list \<Rightarrow> real observation \<Rightarrow> doc_time observation" where
  "to_document isoformat cols r =
     \<lparr>timestamp =
        (if ''timestamp'' \<in> set cols
         then Some (case timestamp r of None \<Rightarrow> NaT | Some t \<Rightarrow> Iso (isoformat t))
         else None),
      latitude = (if ''latitude'' \<in> set cols then latitude r else None),
      longitude = (if ''longitude'' \<in> set cols then longitude r else None),
      temperature = (if ''temperature'' \<in> set cols then temperature r else None),
      salinity = (if ''salinity'' \<in> set cols then salinity r else None),
      odo = (if ''odo'' \<in> set cols then odo r else None)\<rparr>"

text \<open>
  \<open>load_and_clean_data\<close> from line 30 on. The argument \<open>raw\<close> is the frame that
  \<open>pd.read_csv\<close> returned, after the renaming of line 46 and with the timestamp
  column of lines 49-53 in place (neither changes the number of rows).
\<close>

text \<open>Lines 56-57 and 61-62: the required columns, and the numeric ones, that the file has.\<close>

definition available_columns :: "frame \<Rightarrow> string list" where
  "available_columns raw = filter (\<lambda>c. c \<in> set (columns raw)) required_columns"

definition numeric_available :: "frame \<Rightarrow> string list" where
  "numeric_available raw = filter (\<lambda>c. c \<in> set (available_columns raw)) numeric_columns"

text \<open>Lines 58-63: \<open>df\<close> after the column selection and the drop of incomplete rows.\<close>

definition complete_rows :: "frame \<Rightarrow> frame" where
  "complete_rows raw = dropna (numeric_available raw) (select_columns (available_columns raw) raw)"

text \<open>Lines 69-71: \<open>cleaned_df\<close>.\<close>

definition zscore_clean :: "frame \<Rightarrow> frame" where
  "zscore_clean raw =
     (let df = complete_rows raw;
          mask = zscore_mask (numeric_available raw) df
      in boolean_index mask df)"

definition load_and_clean_data :: "(real \<Rightarrow> string) \<Rightarrow> frame \<Rightarrow> state \<Rightarrow> state" where
  "load_and_clean_data isoformat raw st =
     (let original = int (length (rows raw));
          cleaned = zscore_clean raw;
          removed = original - int (length (rows cleaned));
          records = map (\<lambda>lr. to_document isoformat (columns cleaned) (snd lr)) (rows cleaned)
      in \<lparr>collection = records, cleaned_df = Some cleaned,
          original_count = original, removed_count = removed\<rparr>)"

section \<open>The read operations\<close>

datatype error =
    DataNotLoaded            \<comment> \<open>500, "Data not loaded"\<close>
  | NoNumericColumns         \<comment> \<open>500, "No numeric columns available"\<close>
  | FieldNotFound string     \<comment> \<open>400, "Field '...' not found"\<close>
  | BadMethod                \<comment> \<open>400, "Method must be 'iqr' or 'zscore'"\<close>
  | Exception                \<comment> \<open>500, an exception caught by the handler's \<open>except\<close>\<close>

fun status_code :: "error \<Rightarrow> nat" where
  "status_code DataNotLoaded = 500"
| "status_code NoNumericColumns = 500"
| "status_code (FieldNotFound f) = 400"
| "status_code BadMethod = 400"
| "status_code Exception = 500"

subsection \<open>\<open>/api/observations\<close>\<close>

record observations_args =
  arg_start :: "string option"
  arg_end :: "string option"
  arg_min_temp :: "real option"
  arg_max_temp :: "real option"
  arg_min_sal :: "real option"
  arg_max_sal :: "real option"
  arg_min_odo :: "real option"
  arg_max_odo :: "real option"
  arg_limit :: "int option"
  arg_skip :: "int option"

text \<open>A sub-document \<open>{'$gte': a, '$lte': b}\<close>, either key optional.\<close>

record 'a range_filter =
  gte :: "'a option"
  lte :: "'a option"

record query =
  q_timestamp :: "string range_filter option"
  q_temperature :: "real range_filter option"
  q_salinity :: "real range_filter option"
  q_odo :: "real range_filter option"

text \<open>Python's truth value of \<open>request.args.get('start')\<close>: false when absent or empty.\<close>

definition truthy :: "string option \<Rightarrow> bool" where
  "truthy s = (case s of None \<Rightarrow> False | Some t \<Rightarrow> t \<noteq> [])"

definition str_filter :: "string option \<Rightarrow> string option \<Rightarrow> string range_filter option" where
  "str_filter lo hi =
     (if truthy lo \<or> truthy hi
      then Some \<lparr>gte = (if truthy lo then lo else None), lte = (if truthy hi then hi else None)\<rparr>
      else None)"

definition num_filter :: "real option \<Rightarrow> real option \<Rightarrow> real range_filter option" where
  "num_filter lo hi = (if \<not> (lo = None \<and> hi = None) then Some \<lparr>gte = lo, lte = hi\<rparr> else None)"

text \<open>Lines 119-155.\<close>

definition build_query :: "observations_args \<Rightarrow> query" where
  "build_query a =
     \<lparr>q_timestamp = str_filter (arg_start a) (arg_end a),
      q_temperature = num_filter (arg_min_temp a) (arg_max_temp a),
      q_salinity = num_filter (arg_min_sal a) (arg_max_sal a),
      q_odo = num_filter (arg_min_odo a) (arg_max_odo a)\<rparr>"

text \<open>
  The store's matching of one field: a field without a filter is unconstrained; a
  filtered field must be present, at or above \<open>$gte\<close> and at or below \<open>$lte\<close>.
  Strings compare lexicographically, as Python's do; a NaT is not a string and
  matches no bound.
\<close>

definition iso_string :: "doc_time option \<Rightarrow> string option" where
  "iso_string t = (case t of Some (Iso s) \<Rightarrow> Some s | _ \<Rightarrow> None)"

definition in_range :: "('a::linorder) range_filter option \<Rightarrow> 'a option \<Rightarrow> bool" where
  "in_range f v =
     (case f of None \<Rightarrow> True
      | Some b \<Rightarrow>
          (case v of None \<Rightarrow> False
           | Some x \<Rightarrow> (case gte b of None \<Rightarrow> True | Some g \<Rightarrow> g \<le> x) \<and>
                      (case lte b of None \<Rightarrow> True | Some l \<Rightarrow> x \<le> l)))"

definition matches :: "query \<Rightarrow> doc_time observation \<Rightarrow> bool" where
  "matches q d =
     (in_range (q_timestamp q) (iso_string (timestamp d)) \<and> in_range (q_temperature q) (temperature d) \<and>
      in_range (q_salinity q) (salinity d) \<and> in_range (q_odo q) (odo d))"

text \<open>\<open>collection.find(query)\<close> in store order, and \<open>collection.count_documents(query)\<close>.\<close>

definition find :: "query \<Rightarrow> doc_time observation list \<Rightarrow> doc_time observation list" where
  "find q docs = filter (matches q) docs"

definition count_documents :: "query \<Rightarrow> doc_time observation list \<Rightarrow> nat" where
  "count_documents q docs = length (filter (matches q) docs)"

text \<open>
  mongomock's cursor, \<open>.skip(s).limit(l)\<close>: the results are \<open>results[s:]\<close>, a Python
  slice (a negative \<open>s\<close> counts from the end); a limit of 0 is no limit, as in
  MongoDB, and any other limit keeps the first \<open>|l|\<close> of them.
\<close>

definition cursor_skip :: "int \<Rightarrow> 'a list \<Rightarrow> 'a list" where
  "cursor_skip s xs = (if s < 0 then drop (nat (int (length xs) + s)) xs else drop (nat s) xs)"

definition cursor_limit :: "int \<Rightarrow> 'a list \<Rightarrow> 'a list" where
  "cursor_limit l xs = (if l = 0 then xs else take (nat \<bar>l\<bar>) xs)"

text \<open>Lines 115-116.\<close>

definition effective_limit :: "observations_args \<Rightarrow> int" where
  "effective_limit a = min (case arg_limit a of None \<Rightarrow> 100 | Some l \<Rightarrow> l) 1000"

definition effective_skip :: "observations_args \<Rightarrow> int" where
  "effective_skip a = (case arg_skip a of None \<Rightarrow> 0 | Some s \<Rightarrow> s)"

record observations_response =
  count :: nat
  returned :: nat
  items :: "doc_time observation list"

text \<open>
  \<open>jsonify\<close> of a list of documents: strings and floats (NaN too) are written, a NaT
  makes it raise.
\<close>

definition jsonify_documents :: "doc_time observation list \<Rightarrow> bool" where
  "jsonify_documents ds = list_all (\<lambda>d. timestamp d \<noteq> Some NaT) ds"

text \<open>
  The handler, lines 105-171: an exception of \<open>jsonify\<close> is caught by the \<open>except\<close>
  clause and answered with 500.
\<close>

definition observations :: "state \<Rightarrow> observations_args \<Rightarrow> error + observations_response" where
  "observations st a =
     (let limit = effective_limit a;
          skip = effective_skip a;
          query = build_query a;
          items = cursor_limit limit (cursor_skip skip (find query (collection st)));
          total_count = count_documents query (collection st)
      in if jsonify_documents items
         then Inr \<lparr>count = total_count, returned = length items, items = items\<rparr>
         else Inl Exception)"

subsection \<open>\<open>/api/stats\<close>\<close>

record col_stats =
  st_count :: int
  st_mean :: "real option"
  st_std :: "real option"
  st_min :: "real option"
  st_q25 :: "real option"
  st_q50 :: "real option"
  st_q75 :: "real option"
  st_max :: "real option"

text \<open>
  One column of \<open>DataFrame.describe(percentiles=[.25, .5, .75])\<close>, for a float64
  column: NaN cells are skipped; with no value left the count is 0 and every other
  entry is NaN. For columns of dtype object the table has the rows \<open>count\<close>,
  \<open>unique\<close>, \<open>top\<close> and \<open>freq\<close> only.
\<close>

definition describe :: "real option list \<Rightarrow> col_stats" where
  "describe a =
     (let vs = omit_nan a
      in \<lparr>st_count = int (length vs),
          st_mean = (if vs = [] then None else Some (mean vs)),
          st_std = pd_std vs,
          st_min = (if vs = [] then None else Some (Min (set vs))),
          st_q25 = quantile (1/4) vs,
          st_q50 = quantile (1/2) vs,
          st_q75 = quantile (3/4) vs,
          st_max = (if vs = [] then None else Some (Max (set vs)))\<rparr>)"

text \<open>
  The handler, lines 176-206. On columns of dtype object \<open>desc.loc['mean', col]\<close>
  raises a KeyError, which the \<open>except\<close> clause answers with 500.
\<close>

definition stats_endpoint :: "state \<Rightarrow> error + (string \<times> col_stats) list" where
  "stats_endpoint st =
     (case cleaned_df st of
        None \<Rightarrow> Inl DataNotLoaded
      | Some df \<Rightarrow>
          (let available_columns = filter (\<lambda>c. c \<in> set (columns df)) numeric_columns
           in if available_columns = [] then Inl NoNumericColumns
              else if float_dtype df
              then Inr (map (\<lambda>c. (c, describe (column c df))) available_columns)
              else Inl Exception))"

subsection \<open>\<open>/api/outliers\<close>\<close>

record outliers_args =
  arg_field :: "string option"
  arg_method :: "string option"
  arg_k :: "real option"

record outliers_response =
  r_method :: string
  r_field :: string
  r_k :: real
  outlier_count :: nat
  outliers_list :: "real observation list"

text \<open>Line 222, \<open>cleaned_df[field].dropna()\<close>: the values that are not NaN, with their labels.\<close>

definition field_data :: "string \<Rightarrow> frame \<Rightarrow> (nat \<times> real) list" where
  "field_data f df =
     concat (map (\<lambda>lr. case cell f (snd lr) of None \<Rightarrow> [] | Some v \<Rightarrow> [(fst lr, v)]) (rows df))"

text \<open>Lines 227-233: the labels of the values outside \<open>[Q1 - k IQR, Q3 + k IQR]\<close>.\<close>

definition iqr_outlier_indices :: "real \<Rightarrow> (nat \<times> real) list \<Rightarrow> nat list" where
  "iqr_outlier_indices k data =
     (let Q1 = quantile (1/4) (map snd data);
          Q3 = quantile (3/4) (map snd data);
          IQR = f_sub Q3 Q1;
          lower_bound = f_sub Q1 (f_mul (Some k) IQR);
          upper_bound = f_add Q3 (f_mul (Some k) IQR)
      in map fst (filter (\<lambda>lv. f_less (Some (snd lv)) lower_bound \<or> f_less upper_bound (Some (snd lv))) data))"

text \<open>Lines 237-239: the labels of the values with \<open>|z| > k\<close>.\<close>

definition zscore_outlier_indices :: "real \<Rightarrow> (nat \<times> real) list \<Rightarrow> nat list" where
  "zscore_outlier_indices k data =
     (let z_scores = map np_abs (zscore (map (\<lambda>lv. Some (snd lv)) data))
      in map fst (filter (\<lambda>lz. f_less (Some k) (snd lz)) (zip (map fst data) z_scores)))"

text \<open>
  \<open>df.iloc[idxs]\<close> with a list of integers: the rows at these positions, an
  IndexError when one of them is out of bounds.
\<close>

definition iloc :: "nat list \<Rightarrow> frame \<Rightarrow> error + real observation list" where
  "iloc idxs df =
     (if list_all (\<lambda>i. i < length (rows df)) idxs
      then Inr (map (\<lambda>i. snd (rows df ! i)) idxs)
      else Inl Exception)"

text \<open>Lines 212-214: the parameters with their defaults.\<close>

definition outliers_field :: "outliers_args \<Rightarrow> string" where
  "outliers_field a = (case arg_field a of None \<Rightarrow> ''temperature'' | Some f \<Rightarrow> f)"

definition outliers_method :: "outliers_args \<Rightarrow> string" where
  "outliers_method a = (case arg_method a of None \<Rightarrow> ''iqr'' | Some m \<Rightarrow> m)"

definition outliers_k :: "outliers_args \<Rightarrow> real" where
  "outliers_k a = (case arg_k a of None \<Rightarrow> 3/2 | Some k \<Rightarrow> k)"

text \<open>
  \<open>jsonify\<close> of the records of lines 246-251: a timestamp that is not NaT has been
  turned into a string, a NaT is left in the record and makes \<open>jsonify\<close> raise.
\<close>

definition jsonify_records :: "string list \<Rightarrow> real observation list \<Rightarrow> bool" where
  "jsonify_records cols recs =
     (if ''timestamp'' \<in> set cols then list_all (\<lambda>r. timestamp r \<noteq> None) recs else True)"

text \<open>
  The handler, lines 211-262. The records of the response are given as the rows of
  \<open>outliers_df\<close>, their timestamps as the frame has them. scipy cannot average
  datetime64 values: the z-score of the timestamp column raises. Every exception
  is caught by the \<open>except\<close> clause and answered with 500.
\<close>

definition outliers :: "state \<Rightarrow> outliers_args \<Rightarrow> error + outliers_response" where
  "outliers st a =
     (let field = outliers_field a; method = outliers_method a; k = outliers_k a
      in case cleaned_df st of
           None \<Rightarrow> Inl DataNotLoaded
         | Some df \<Rightarrow>
             if field \<notin> set (columns df) then Inl (FieldNotFound field)
             else if method \<noteq> ''iqr'' \<and> method \<noteq> ''zscore'' then Inl BadMethod
             else if method = ''zscore'' \<and> field = ''timestamp'' then Inl Exception
             else
               (let data = field_data field df;
                    outlier_indices =
                      (if method = ''iqr'' then iqr_outlier_indices k data
                       else zscore_outlier_indices k data)
                in case iloc outlier_indices df of
                     Inl e \<Rightarrow> Inl e
                   | Inr recs \<Rightarrow>
                       if jsonify_records (columns df) recs
                       then Inr \<lparr>r_method = method, r_field = field, r_k = k,
                                 outlier_count = length recs, outliers_list = recs\<rparr>
                       else Inl Exception))"

subsection \<open>\<open>/api/summary\<close>\<close>

record summary_response =
  original_rows :: int
  rows_removed :: int
  rows_remaining :: int
  cleaning_method :: string

definition summary :: "state \<Rightarrow> summary_response" where
  "summary st =
     \<lparr>original_rows = original_count st,
      rows_removed = removed_count st,
      rows_remaining = (case cleaned_df st of None \<Rightarrow> 0 | Some df \<Rightarrow> int (length (rows df))),
      cleaning_method = ''z-score with threshold 3.0''\<rparr>"

section \<open>Notions used in the statements\<close>

text \<open>
  The row-wise reading of the mask of lines 69-70: a row is kept when, in every
  column of \<open>cols\<close>, the magnitude of its z-score entry is below 3.
\<close>

definition keeps :: "string list \<Rightarrow> frame \<Rightarrow> real observation \<Rightarrow> bool" where
  "keeps cols df r =
     list_all (\<lambda>c. f_less (np_abs (zscore_entry (omit_nan (column c df)) (cell c r))) (Some 3)) cols"

text \<open>The values of a field over the rows that survive the required-field drop.\<close>

definition field_values :: "string \<Rightarrow> frame \<Rightarrow> real list" where
  "field_values c raw = omit_nan (column c (complete_rows raw))"

text \<open>The z-score of \<open>x\<close> among \<open>vs\<close> with the population deviation (denominator \<open>n\<close>).\<close>

definition population_z :: "real list \<Rightarrow> real \<Rightarrow> real" where
  "population_z vs x = (x - mean vs) / np_std vs"

text \<open>
  The z-score of \<open>x\<close> among \<open>vs\<close> with the sample deviation (denominator \<open>n - 1\<close>),
  the one that \<open>describe\<close> reports; NaN below two values.
\<close>

definition sample_z :: "real list \<Rightarrow> real \<Rightarrow> real option" where
  "sample_z vs x = map_option (\<lambda>s. (x - mean vs) / s) (pd_std vs)"

text \<open>The statistics of a column without values.\<close>

definition no_values :: col_stats where
  "no_values = \<lparr>st_count = 0, st_mean = None, st_std = None, st_min = None,
                 st_q25 = None, st_q50 = None, st_q75 = None, st_max = None\<rparr>"

text \<open>Lines 158-159: the page that the cursor hands to the handler.\<close>

definition page :: "state \<Rightarrow> observations_args \<Rightarrow> doc_time observation list" where
  "page st a =
     cursor_limit (effective_limit a) (cursor_skip (effective_skip a)
       (find (build_query a) (collection st)))"

text \<open>The interpolation of \<open>quantile\<close> at the fractional position \<open>h\<close> of a sorted list.\<close>

definition interp :: "real list \<Rightarrow> real \<Rightarrow> real" where
  "interp s h =
     s ! nat \<lfloor>h\<rfloor> +
     (h - real (nat \<lfloor>h\<rfloor>)) * (s ! min (nat \<lfloor>h\<rfloor> + 1) (length s - 1) - s ! nat \<lfloor>h\<rfloor>)"

section \<open>Example inputs\<close>

text \<open>
  A reading taken \<open>t\<close> seconds after the start, with its temperature and salinity
  cells; the other cells are empty.
\<close>

definition reading :: "real \<Rightarrow> real option \<Rightarrow> real option \<Rightarrow> real observation" where
  "reading t x y =
     \<lparr>timestamp = Some t, latitude = None, longitude = None,
      temperature = x, salinity = y, odo = None\<rparr>"

text \<open>A stand-in for \<open>isoformat\<close>; the examples do not filter by time.\<close>

definition isoformat_stub :: "real \<Rightarrow> string" where
  "isoformat_stub t = ''2022-10-07T00:00:00''"

text \<open>Six rows, the first without a temperature, the second far from the others.\<close>

definition raw_gap :: frame where
  "raw_gap = read_csv [''timestamp'', ''temperature'']
     [reading 0 None None, reading 1 (Some 100) None, reading 2 (Some 10) None,
      reading 3 (Some 10) None, reading 4 (Some 10) None, reading 5 (Some 10) None]"

text \<open>The same rows without the incomplete one.\<close>

definition raw_five :: frame where
  "raw_five = read_csv [''timestamp'', ''temperature'']
     [reading 0 (Some 100) None, reading 1 (Some 10) None, reading 2 (Some 10) None,
      reading 3 (Some 10) None, reading 4 (Some 10) None]"

text \<open>Two rows with different temperatures and one and the same salinity.\<close>

definition raw_const :: frame where
  "raw_const = read_csv [''timestamp'', ''temperature'', ''salinity'']
     [reading 0 (Some 20) (Some 35), reading 1 (Some 22) (Some 35)]"

text \<open>Two rows, temperature only.\<close>

definition raw_two :: frame where
  "raw_two = read_csv [''timestamp'', ''temperature'']
     [reading 0 (Some 20) None, reading 1 (Some 22) None]"

text \<open>A single row.\<close>

definition raw_one :: frame where
  "raw_one = read_csv [''timestamp'', ''temperature''] [reading 0 (Some 20) None]"

text \<open>Ten rows: nine temperatures of 20 and one of 30.\<close>

definition raw_ten :: frame where
  "raw_ten = read_csv [''timestamp'', ''temperature'']
     [reading 0 (Some 20) None, reading 1 (Some 20) None, reading 2 (Some 20) None,
      reading 3 (Some 20) None, reading 4 (Some 20) None, reading 5 (Some 20) None,
      reading 6 (Some 20) None, reading 7 (Some 20) None, reading 8 (Some 20) None,
      reading 9 (Some 30) None]"

text \<open>\<open>2 n\<close> rows, the temperatures 20 and 22 in turn; 1500 of them.\<close>

definition alternating :: "nat \<Rightarrow> real observation list" where
  "alternating n = concat (replicate n [reading 0 (Some 20) None, reading 1 (Some 22) None])"

definition raw_many :: frame where
  "raw_many = read_csv [''timestamp'', ''temperature''] (alternating 750)"

text \<open>A file with a header and no data row.\<close>

definition raw_header :: frame where
  "raw_header = read_csv [''timestamp'', ''temperature''] []"

text \<open>A file without any of the numeric columns.\<close>

definition raw_bare :: frame where
  "raw_bare = read_csv [''timestamp''] [reading 0 None None]"

text \<open>Requests.\<close>

definition no_filter :: observations_args where
  "no_filter =
     \<lparr>arg_start = None, arg_end = None, arg_min_temp = None, arg_max_temp = None,
      arg_min_sal = None, arg_max_sal = None, arg_min_odo = None, arg_max_odo = None,
      arg_limit = None, arg_skip = None\<rparr>"

definition outliers_request :: "string option \<Rightarrow> real option \<Rightarrow> outliers_args" where
  "outliers_request m k = \<lparr>arg_field = None, arg_method = m, arg_k = k\<rparr>"

section \<open>The cleaning pass, row by row\<close>

lemma filter_by_mask: "map fst (filter snd (zip xs (map P xs))) = filter P xs"
  by (induction xs) auto

lemma map_nth_fun: "map (\<lambda>i. f (xs ! i)) [0..<length xs] = map f xs"
  by (rule nth_equalityI) auto

lemma length_zscore [simp]: "length (zscore a) = length a"
  by (simp add: zscore_def)

lemma length_column [simp]: "length (column c df) = length (rows df)"
  by (simp add: column_def)

lemma zscore_mask_eq: "zscore_mask cols df = map (\<lambda>lr. keeps cols df (snd lr)) (rows df)"
proof -
  have "list_all (\<lambda>zc. f_less (zc ! i) (Some 3)) (map (\<lambda>c. map np_abs (zscore (column c df))) cols)
        = keeps cols df (snd (rows df ! i))" if "i < length (rows df)" for i
    using that by (simp add: keeps_def list.pred_map comp_def zscore_def column_def)
  then have "zscore_mask cols df = map (\<lambda>i. keeps cols df (snd (rows df ! i))) [0..<length (rows df)]"
    by (simp add: zscore_mask_def)
  then show ?thesis
    by (simp add: map_nth_fun [of "\<lambda>lr. keeps cols df (snd lr)"])
qed

lemma rows_zscore_clean:
  "rows (zscore_clean raw) =
     filter (\<lambda>lr. keeps (numeric_available raw) (complete_rows raw) (snd lr)) (rows (complete_rows raw))"
  by (simp add: zscore_clean_def Let_def boolean_index_def zscore_mask_eq filter_by_mask)

lemma columns_zscore_clean: "columns (zscore_clean raw) = available_columns raw"
  by (simp add: zscore_clean_def Let_def boolean_index_def complete_rows_def dropna_def select_columns_def)

section \<open>Provenance counters\<close>

text \<open>
  C8. After an ingestion run the summary operation reports
  \<open>original_rows = rows_removed + rows_remaining\<close>, and \<open>original_rows\<close> is the number
  of rows after the column selection, before the rows with a missing required field
  are dropped. The read operations return a response and leave the state as it is.
\<close>

theorem provenance_counts:
  "original_rows (summary (load_and_clean_data f raw st)) =
     rows_removed (summary (load_and_clean_data f raw st)) +
     rows_remaining (summary (load_and_clean_data f raw st)) \<and>
   original_rows (summary (load_and_clean_data f raw st)) =
     int (length (rows (select_columns (available_columns raw) raw)))"
  by (simp add: summary_def load_and_clean_data_def Let_def select_columns_def)


section \<open>Evaluating the examples\<close>

lemma columns_read_csv [simp]: "columns (read_csv cs rs) = cs"
  by (simp add: read_csv_def)

lemma rows_read_csv_1: "rows (read_csv cs [a]) = [(0, a)]"
  by (simp add: read_csv_def)

lemma rows_read_csv_2: "rows (read_csv cs [a, b]) = [(0, a), (1, b)]"
  by (simp add: read_csv_def upt_rec)

lemma rows_read_csv_5: "rows (read_csv cs [a, b, c, d, e]) = [(0, a), (1, b), (2, c), (3, d), (4, e)]"
  by (simp add: read_csv_def upt_rec)

lemma rows_read_csv_6:
  "rows (read_csv cs [a, b, c, d, e, f]) = [(0, a), (1, b), (2, c), (3, d), (4, e), (5, f)]"
  by (simp add: read_csv_def upt_rec)

lemma rows_read_csv_10:
  "rows (read_csv cs [a, b, c, d, e, f, g, h, i, j]) =
     [(0, a), (1, b), (2, c), (3, d), (4, e), (5, f), (6, g), (7, h), (8, i), (9, j)]"
  by (simp add: read_csv_def upt_rec)

lemma temperature_only:
  assumes "columns raw = [''timestamp'', ''temperature'']"
  shows "available_columns raw = [''timestamp'', ''temperature'']"
    and "numeric_available raw = [''temperature'']"
  using assms
  by (simp_all add: available_columns_def numeric_available_def required_columns_def numeric_columns_def)

lemma temperature_salinity:
  assumes "columns raw = [''timestamp'', ''temperature'', ''salinity'']"
  shows "available_columns raw = [''timestamp'', ''temperature'', ''salinity'']"
    and "numeric_available raw = [''temperature'', ''salinity'']"
  using assms
  by (simp_all add: available_columns_def numeric_available_def required_columns_def numeric_columns_def)

lemma cell_reading [simp]:
  "cell ''temperature'' (reading t x y) = x"
  "cell ''salinity'' (reading t x y) = y"
  by (simp_all add: cell_def reading_def)

lemma jsonify_readings [simp]:
  "jsonify_records cols []"
  "jsonify_records cols (reading t x y # recs) = jsonify_records cols recs"
  by (simp_all add: jsonify_records_def reading_def)

lemma sqrt_1296: "sqrt 1296 = 36"
  by (rule real_sqrt_unique) simp_all

lemma mean_five: "mean [100, 10, 10, 10, 10] = 28"
  by (simp add: mean_def)

lemma std_five: "np_std [100, 10, 10, 10, 10] = 36"
  by (simp add: np_std_def sumsq_def mean_five sqrt_1296)

lemma keeps_five:
  "keeps [''temperature''] df (reading t (Some x) y) =
     f_less (np_abs (zscore_entry (omit_nan (column ''temperature'' df)) (Some x))) (Some 3)"
  by (simp add: keeps_def)

subsection \<open>\<open>raw_gap\<close>\<close>

lemma columns_gap: "columns raw_gap = [''timestamp'', ''temperature'']"
  by (simp add: raw_gap_def)

lemma complete_gap:
  "rows (complete_rows raw_gap) =
     [(1, reading 1 (Some 100) None), (2, reading 2 (Some 10) None), (3, reading 3 (Some 10) None),
      (4, reading 4 (Some 10) None), (5, reading 5 (Some 10) None)]"
  by (simp add: complete_rows_def temperature_only columns_gap dropna_def select_columns_def)
     (simp add: raw_gap_def rows_read_csv_6 del: One_nat_def)

lemma values_gap: "omit_nan (column ''temperature'' (complete_rows raw_gap)) = [100, 10, 10, 10, 10]"
  by (simp add: column_def complete_gap omit_nan_def)

lemma clean_gap: "rows (zscore_clean raw_gap) = rows (complete_rows raw_gap)"
  by (simp add: rows_zscore_clean temperature_only columns_gap complete_gap keeps_five values_gap
        zscore_entry_def std_five mean_five np_abs_def f_less_def)

lemma data_gap:
  "field_data ''temperature'' (zscore_clean raw_gap) = [(1, 100), (2, 10), (3, 10), (4, 10), (5, 10)]"
  by (simp add: field_data_def clean_gap complete_gap del: One_nat_def)

lemma q1_five: "quantile (1/4) [100, 10, 10, 10, 10] = Some 10"
  by (simp add: quantile_def Let_def)

lemma q3_five: "quantile (3/4) [100, 10, 10, 10, 10] = Some 10"
  by (simp add: quantile_def Let_def)

lemma iqr_gap: "iqr_outlier_indices (3/2) [(1, 100), (2, 10), (3, 10), (4, 10), (5, 10)] = [1]"
  by (simp add: iqr_outlier_indices_def q1_five q3_five Let_def f_sub_def f_add_def f_mul_def f_less_def
      del: One_nat_def)

lemma iloc_gap: "iloc [1] (zscore_clean raw_gap) = Inr [reading 2 (Some 10) None]"
  by (simp add: iloc_def clean_gap complete_gap)

text \<open>
  C1. The list returned by the outlier operation consists of exactly the stored
  records whose value satisfies the method's outlier condition. Not so on the six
  rows of \<open>raw_gap\<close>: the first row is dropped as incomplete, so the cleaned rows carry
  the labels 1 to 5; the IQR method flags the label 1, the record with temperature
  100; and \<open>iloc\<close> reads the label as a position and returns the record at position
  1, whose temperature of 10 is inside the bounds.
\<close>

theorem outliers_returns_wrong_record:
  "rows (zscore_clean raw_gap) =
     [(1, reading 1 (Some 100) None), (2, reading 2 (Some 10) None), (3, reading 3 (Some 10) None),
      (4, reading 4 (Some 10) None), (5, reading 5 (Some 10) None)] \<and>
   iqr_outlier_indices (3/2) (field_data ''temperature'' (zscore_clean raw_gap)) = [1] \<and>
   outliers (load_and_clean_data isoformat_stub raw_gap init_state) (outliers_request None None) =
     Inr \<lparr>r_method = ''iqr'', r_field = ''temperature'', r_k = 3/2, outlier_count = 1,
          outliers_list = [reading 2 (Some 10) None]\<rparr>"
  by (simp add: clean_gap complete_gap data_gap iqr_gap outliers_def load_and_clean_data_def Let_def
      outliers_request_def outliers_field_def outliers_method_def outliers_k_def
      columns_zscore_clean temperature_only columns_gap iloc_gap del: One_nat_def)


subsection \<open>\<open>raw_five\<close>\<close>

lemma columns_five: "columns raw_five = [''timestamp'', ''temperature'']"
  by (simp add: raw_five_def)

lemma complete_five:
  "rows (complete_rows raw_five) =
     [(0, reading 0 (Some 100) None), (1, reading 1 (Some 10) None), (2, reading 2 (Some 10) None),
      (3, reading 3 (Some 10) None), (4, reading 4 (Some 10) None)]"
  by (simp add: complete_rows_def temperature_only columns_five dropna_def select_columns_def)
     (simp add: raw_five_def rows_read_csv_5 del: One_nat_def)

lemma values_five: "omit_nan (column ''temperature'' (complete_rows raw_five)) = [100, 10, 10, 10, 10]"
  by (simp add: column_def complete_five omit_nan_def)

lemma clean_five: "rows (zscore_clean raw_five) = rows (complete_rows raw_five)"
  by (simp add: rows_zscore_clean temperature_only columns_five complete_five keeps_five values_five
        zscore_entry_def std_five mean_five np_abs_def f_less_def)

lemma data_five:
  "field_data ''temperature'' (zscore_clean raw_five) = [(0, 100), (1, 10), (2, 10), (3, 10), (4, 10)]"
  by (simp add: field_data_def clean_five complete_five del: One_nat_def)

lemma zscore_five:
  "map np_abs (zscore [Some 100, Some 10, Some 10, Some 10, Some 10]) =
     [Some 2, Some (1/2), Some (1/2), Some (1/2), Some (1/2)]"
  by (simp add: zscore_def omit_nan_def zscore_entry_def std_five mean_five np_abs_def)

lemma flagged_five_default:
  "zscore_outlier_indices (3/2) [(0, 100), (1, 10), (2, 10), (3, 10), (4, 10)] = [0]"
  by (simp add: zscore_outlier_indices_def zscore_five f_less_def)

lemma flagged_five_3:
  "zscore_outlier_indices 3 [(0, 100), (1, 10), (2, 10), (3, 10), (4, 10)] = []"
  by (simp add: zscore_outlier_indices_def zscore_five f_less_def)

lemma iloc_five: "iloc [0] (zscore_clean raw_five) = Inr [reading 0 (Some 100) None]"
  by (simp add: iloc_def clean_five complete_five)

lemma iloc_Nil: "iloc [] df = Inr []"
  by (simp add: iloc_def)

text \<open>
  C3. Without \<open>k\<close> in the request the default depends on the method, 1.5 for IQR and
  3.0 for the z-score. The handler has one default: a z-score request without \<open>k\<close>
  runs with 1.5 and reports it, and on the five rows of \<open>raw_five\<close> flags the record
  whose z-score is 2, which the bound 3.0 leaves alone.
\<close>

theorem zscore_default_k:
  "outliers_k (outliers_request (Some ''zscore'') None) = 3/2 \<and>
   outliers (load_and_clean_data isoformat_stub raw_five init_state)
       (outliers_request (Some ''zscore'') None) =
     Inr \<lparr>r_method = ''zscore'', r_field = ''temperature'', r_k = 3/2, outlier_count = 1,
          outliers_list = [reading 0 (Some 100) None]\<rparr> \<and>
   outliers (load_and_clean_data isoformat_stub raw_five init_state)
       (outliers_request (Some ''zscore'') (Some 3)) =
     Inr \<lparr>r_method = ''zscore'', r_field = ''temperature'', r_k = 3, outlier_count = 0,
          outliers_list = []\<rparr>"
  by (simp add: outliers_def load_and_clean_data_def Let_def
      outliers_request_def outliers_field_def outliers_method_def outliers_k_def
      columns_zscore_clean temperature_only columns_five data_five flagged_five_default
      flagged_five_3 iloc_five iloc_Nil del: One_nat_def)

subsection \<open>\<open>raw_const\<close>\<close>

lemma columns_const: "columns raw_const = [''timestamp'', ''temperature'', ''salinity'']"
  by (simp add: raw_const_def)

lemma complete_const:
  "rows (complete_rows raw_const) =
     [(0, reading 0 (Some 20) (Some 35)), (1, reading 1 (Some 22) (Some 35))]"
  by (simp add: complete_rows_def temperature_salinity columns_const dropna_def select_columns_def)
     (simp add: raw_const_def rows_read_csv_2 del: One_nat_def)

lemma values_const:
  "omit_nan (column ''temperature'' (complete_rows raw_const)) = [20, 22]"
  "omit_nan (column ''salinity'' (complete_rows raw_const)) = [35, 35]"
  by (simp_all add: column_def complete_const omit_nan_def)

lemma std_const: "np_std [35, 35] = 0"
  by (simp add: np_std_def sumsq_def mean_def)

lemma mean_two: "mean [20, 22] = 21"
  by (simp add: mean_def)

lemma std_two: "np_std [20, 22] = 1"
  by (simp add: np_std_def sumsq_def mean_two)

lemma clean_const: "rows (zscore_clean raw_const) = []"
  by (simp add: rows_zscore_clean temperature_salinity columns_const complete_const keeps_def
      values_const zscore_entry_def std_const np_abs_def f_less_def)

lemma length_const: "length (rows raw_const) = 2"
  by (simp add: raw_const_def rows_read_csv_2)

text \<open>
  C2. A field with zero deviation does not by itself reject a row at ingestion, and
  the z-score of such a field flags no row on demand. The cleaning pass does
  otherwise on the two rows of \<open>raw_const\<close>: the temperatures 20 and 22 have z-scores
  -1 and 1, the salinity is 35 in both rows, its z-score is NaN, \<open>NaN < 3.0\<close> is
  false, and both rows are removed.
\<close>

theorem constant_field_rejects_all:
  "map (zscore_entry (field_values ''temperature'' raw_const)) [Some 20, Some 22] = [Some (-1), Some 1] \<and>
   map (zscore_entry (field_values ''salinity'' raw_const)) [Some 35, Some 35] = [None, None] \<and>
   rows (zscore_clean raw_const) = [] \<and>
   rows_removed (summary (load_and_clean_data isoformat_stub raw_const init_state)) = 2 \<and>
   rows_remaining (summary (load_and_clean_data isoformat_stub raw_const init_state)) = 0"
  by (simp add: field_values_def values_const zscore_entry_def std_const std_two mean_two
      clean_const summary_def load_and_clean_data_def Let_def length_const)


subsection \<open>\<open>raw_two\<close>\<close>

lemma columns_two: "columns raw_two = [''timestamp'', ''temperature'']"
  by (simp add: raw_two_def)

lemma complete_two:
  "rows (complete_rows raw_two) = [(0, reading 0 (Some 20) None), (1, reading 1 (Some 22) None)]"
  by (simp add: complete_rows_def temperature_only columns_two dropna_def select_columns_def)
     (simp add: raw_two_def rows_read_csv_2 del: One_nat_def)

lemma values_two: "omit_nan (column ''temperature'' (complete_rows raw_two)) = [20, 22]"
  by (simp add: column_def complete_two omit_nan_def)

lemma clean_two: "rows (zscore_clean raw_two) = rows (complete_rows raw_two)"
  by (simp add: rows_zscore_clean temperature_only columns_two complete_two keeps_five values_two
        zscore_entry_def std_two mean_two np_abs_def f_less_def)

text \<open>The two documents that the ingestion of \<open>raw_two\<close> stores.\<close>

lemma collection_two:
  "collection (load_and_clean_data isoformat_stub raw_two init_state) =
     [\<lparr>timestamp = Some (Iso ''2022-10-07T00:00:00''), latitude = None, longitude = None,
       temperature = Some 20, salinity = None, odo = None\<rparr>,
      \<lparr>timestamp = Some (Iso ''2022-10-07T00:00:00''), latitude = None, longitude = None,
       temperature = Some 22, salinity = None, odo = None\<rparr>]"
  by (simp add: load_and_clean_data_def Let_def clean_two complete_two columns_zscore_clean
      temperature_only columns_two to_document_def reading_def isoformat_stub_def)

lemma matches_no_filter: "matches (build_query no_filter) d"
  by (simp add: matches_def build_query_def no_filter_def str_filter_def num_filter_def truthy_def
      in_range_def)

lemma matches_paging [simp]:
  "build_query (a\<lparr>arg_limit := l\<rparr>) = build_query a"
  "build_query (a\<lparr>arg_skip := s\<rparr>) = build_query a"
  by (simp_all add: build_query_def)

subsection \<open>\<open>raw_one\<close>\<close>

lemma columns_one: "columns raw_one = [''timestamp'', ''temperature'']"
  by (simp add: raw_one_def)

lemma complete_one: "rows (complete_rows raw_one) = [(0, reading 0 (Some 20) None)]"
  by (simp add: complete_rows_def temperature_only columns_one dropna_def select_columns_def)
     (simp add: raw_one_def rows_read_csv_1)

lemma values_one: "omit_nan (column ''temperature'' (complete_rows raw_one)) = [20]"
  by (simp add: column_def complete_one omit_nan_def)

lemma std_one: "np_std [20] = 0"
  by (simp add: np_std_def sumsq_def mean_def)

lemma clean_one: "rows (zscore_clean raw_one) = []"
  by (simp add: rows_zscore_clean temperature_only columns_one complete_one keeps_five values_one
        zscore_entry_def std_one np_abs_def f_less_def)

subsection \<open>\<open>raw_ten\<close>\<close>

lemma columns_ten: "columns raw_ten = [''timestamp'', ''temperature'']"
  by (simp add: raw_ten_def)

lemma complete_ten:
  "rows (complete_rows raw_ten) =
     [(0, reading 0 (Some 20) None), (1, reading 1 (Some 20) None), (2, reading 2 (Some 20) None),
      (3, reading 3 (Some 20) None), (4, reading 4 (Some 20) None), (5, reading 5 (Some 20) None),
      (6, reading 6 (Some 20) None), (7, reading 7 (Some 20) None), (8, reading 8 (Some 20) None),
      (9, reading 9 (Some 30) None)]"
  by (simp add: complete_rows_def temperature_only columns_ten dropna_def select_columns_def)
     (simp add: raw_ten_def rows_read_csv_10 del: One_nat_def)

lemma values_ten:
  "field_values ''temperature'' raw_ten = [20, 20, 20, 20, 20, 20, 20, 20, 20, 30]"
  by (simp add: field_values_def column_def complete_ten omit_nan_def)

lemma mean_ten: "mean [20, 20, 20, 20, 20, 20, 20, 20, 20, 30] = 21"
  by (simp add: mean_def)

lemma sumsq_ten: "sumsq [20, 20, 20, 20, 20, 20, 20, 20, 20, 30] = 90"
  by (simp add: sumsq_def mean_ten)

lemma sqrt_9: "sqrt 9 = 3"
  by (rule real_sqrt_unique) simp_all

lemma std_ten: "np_std [20, 20, 20, 20, 20, 20, 20, 20, 20, 30] = 3"
  by (simp add: np_std_def sumsq_ten sqrt_9)

lemma pd_std_ten: "pd_std [20, 20, 20, 20, 20, 20, 20, 20, 20, 30] = Some (sqrt 10)"
  by (simp add: pd_std_def sumsq_ten)

lemma clean_ten:
  "rows (zscore_clean raw_ten) =
     [(0, reading 0 (Some 20) None), (1, reading 1 (Some 20) None), (2, reading 2 (Some 20) None),
      (3, reading 3 (Some 20) None), (4, reading 4 (Some 20) None), (5, reading 5 (Some 20) None),
      (6, reading 6 (Some 20) None), (7, reading 7 (Some 20) None), (8, reading 8 (Some 20) None)]"
  by (simp add: rows_zscore_clean temperature_only columns_ten complete_ten keeps_five
        values_ten [unfolded field_values_def]
        zscore_entry_def std_ten mean_ten np_abs_def f_less_def del: One_nat_def)



section \<open>The one-shot cleaning pass\<close>

lemma complete_cells:
  assumes "lr \<in> set (rows (complete_rows raw))" and "c \<in> set (numeric_available raw)"
  shows "\<exists>x. cell c (snd lr) = Some x"
  using assms by (auto simp: complete_rows_def dropna_def select_columns_def list_all_iff)

lemma entry_below_3:
  assumes "np_std vs \<noteq> 0"
  shows "f_less (np_abs (zscore_entry vs (Some x))) (Some 3) \<longleftrightarrow> \<bar>population_z vs x\<bar> < 3"
  unfolding zscore_entry_def np_abs_def f_less_def population_z_def
  using assms by simp

lemma keeps_iff:
  assumes std: "\<And>c. c \<in> set cols \<Longrightarrow> np_std (omit_nan (column c df)) \<noteq> 0"
      and cells: "\<And>c. c \<in> set cols \<Longrightarrow> \<exists>x. cell c r = Some x"
  shows "keeps cols df r \<longleftrightarrow>
           (\<forall>c\<in>set cols. \<exists>x. cell c r = Some x \<and> \<bar>population_z (omit_nan (column c df)) x\<bar> < 3)"
  unfolding keeps_def list_all_iff
proof (rule ball_cong [OF refl])
  fix c assume c: "c \<in> set cols"
  obtain x where x: "cell c r = Some x" using cells [OF c] by blast
  show "f_less (np_abs (zscore_entry (omit_nan (column c df)) (cell c r))) (Some 3) \<longleftrightarrow>
          (\<exists>x. cell c r = Some x \<and> \<bar>population_z (omit_nan (column c df)) x\<bar> < 3)"
    unfolding x using entry_below_3 [OF std [OF c]] by simp
qed

text \<open>
  C4, as the code has it. Take a dataset in which every available required numeric
  field has a non-zero deviation, and take mean and population deviation
  (denominator \<open>n\<close>) over the rows that survive the required-field drop. Of these
  rows, one that the pass keeps has a z-score magnitude below 3 in every available
  field, and one that the pass drops has a magnitude of 3 or more in some available
  field.
\<close>

theorem zscore_cleaning_population:
  assumes "\<forall>c\<in>set (numeric_available raw). np_std (field_values c raw) \<noteq> 0"
      and "lr \<in> set (rows (complete_rows raw))"
  shows "(lr \<in> set (rows (zscore_clean raw)) \<longrightarrow>
            (\<forall>c\<in>set (numeric_available raw).
               \<exists>x. cell c (snd lr) = Some x \<and> \<bar>population_z (field_values c raw) x\<bar> < 3)) \<and>
         (lr \<notin> set (rows (zscore_clean raw)) \<longrightarrow>
            (\<exists>c\<in>set (numeric_available raw).
               \<exists>x. cell c (snd lr) = Some x \<and> 3 \<le> \<bar>population_z (field_values c raw) x\<bar>))"
proof -
  let ?cols = "numeric_available raw" and ?df = "complete_rows raw"
  have cells: "\<exists>x. cell c (snd lr) = Some x" if "c \<in> set ?cols" for c
    using complete_cells [OF assms(2) that] .
  have std: "np_std (omit_nan (column c ?df)) \<noteq> 0" if "c \<in> set ?cols" for c
    using assms(1) that unfolding field_values_def by blast
  have kept: "lr \<in> set (rows (zscore_clean raw)) \<longleftrightarrow> keeps ?cols ?df (snd lr)"
    using assms(2) by (simp add: rows_zscore_clean)
  have iff: "keeps ?cols ?df (snd lr) \<longleftrightarrow>
      (\<forall>c\<in>set ?cols. \<exists>x. cell c (snd lr) = Some x \<and> \<bar>population_z (field_values c raw) x\<bar> < 3)"
    unfolding field_values_def by (rule keeps_iff [OF std cells])
  show ?thesis
  proof (intro conjI impI)
    assume "lr \<in> set (rows (zscore_clean raw))"
    then show "\<forall>c\<in>set ?cols. \<exists>x. cell c (snd lr) = Some x \<and> \<bar>population_z (field_values c raw) x\<bar> < 3"
      using kept iff by blast
  next
    assume "lr \<notin> set (rows (zscore_clean raw))"
    then obtain c where c: "c \<in> set ?cols"
        and n: "\<not> (\<exists>x. cell c (snd lr) = Some x \<and> \<bar>population_z (field_values c raw) x\<bar> < 3)"
      using kept iff by blast
    obtain x where x: "cell c (snd lr) = Some x" using cells [OF c] by blast
    with n have "\<not> \<bar>population_z (field_values c raw) x\<bar> < 3" by blast
    then have "3 \<le> \<bar>population_z (field_values c raw) x\<bar>" by simp
    with c x show "\<exists>c\<in>set ?cols. \<exists>x. cell c (snd lr) = Some x \<and> 3 \<le> \<bar>population_z (field_values c raw) x\<bar>"
      by blast
  qed
qed

theorem zscore_cleaning_population_witness:
  "np_std (field_values ''temperature'' raw_ten) \<noteq> 0 \<and>
   (0, reading 0 (Some 20) None) \<in> set (rows (zscore_clean raw_ten)) \<and>
   \<bar>population_z (field_values ''temperature'' raw_ten) 20\<bar> < 3 \<and>
   (9, reading 9 (Some 30) None) \<in> set (rows (complete_rows raw_ten)) \<and>
   (9, reading 9 (Some 30) None) \<notin> set (rows (zscore_clean raw_ten)) \<and>
   3 \<le> \<bar>population_z (field_values ''temperature'' raw_ten) 30\<bar>"
proof -
  have cols: "numeric_available raw_ten = [''temperature'']"
    by (simp add: temperature_only columns_ten)
  have std: "\<forall>c\<in>set (numeric_available raw_ten). np_std (field_values c raw_ten) \<noteq> 0"
    by (simp add: cols values_ten std_ten)
  have in0: "(0, reading 0 (Some 20) None) \<in> set (rows (complete_rows raw_ten))"
    by (simp add: complete_ten)
  have in9: "(9, reading 9 (Some 30) None) \<in> set (rows (complete_rows raw_ten))"
    by (simp add: complete_ten)
  have k0: "(0, reading 0 (Some 20) None) \<in> set (rows (zscore_clean raw_ten))"
    by (simp add: clean_ten)
  have d9: "(9, reading 9 (Some 30) None) \<notin> set (rows (zscore_clean raw_ten))"
    by (simp add: clean_ten)
  have z0: "\<bar>population_z (field_values ''temperature'' raw_ten) 20\<bar> < 3"
    using zscore_cleaning_population [OF std in0] k0 by (simp add: cols)
  have z9: "3 \<le> \<bar>population_z (field_values ''temperature'' raw_ten) 30\<bar>"
    using zscore_cleaning_population [OF std in9] d9 by (simp add: cols)
  show ?thesis
    using std in9 k0 d9 z0 z9 by (simp add: cols)
qed

text \<open>
  C4 as stated, with the sample deviation (denominator \<open>n - 1\<close>), fails on the ten
  rows of \<open>raw_ten\<close>: the row with temperature 30 has the population z-score 3 and is
  dropped, and its z-score with the sample deviation is \<open>9 / sqrt 10\<close>, below 3, in
  the only available field.
\<close>

theorem zscore_cleaning_sample_counterexample:
  "(9, reading 9 (Some 30) None) \<in> set (rows (complete_rows raw_ten)) \<and>
   (9, reading 9 (Some 30) None) \<notin> set (rows (zscore_clean raw_ten)) \<and>
   numeric_available raw_ten = [''temperature''] \<and>
   np_std (field_values ''temperature'' raw_ten) \<noteq> 0 \<and>
   (\<exists>z. sample_z (field_values ''temperature'' raw_ten) 30 = Some z \<and> \<bar>z\<bar> < 3)"
proof -
  have "(3::real) < sqrt 10"
    by (rule real_less_rsqrt) simp
  then have "\<bar>9 / sqrt 10\<bar> < (3::real)"
    by (simp add: field_simps)
  then show ?thesis
    by (simp add: temperature_only columns_ten values_ten std_ten complete_ten clean_ten
        sample_z_def pd_std_ten mean_ten)
qed


section \<open>Degenerate fields on demand\<close>

lemma omit_nan_Some: "omit_nan (map (\<lambda>lv. Some (f lv)) data) = map f data"
  by (induction data) (simp_all add: omit_nan_def)

text \<open>
  The half of C2 that holds: on a field whose deviation is zero (one distinct value,
  or fewer than two rows) the z-score method flags no row, for any \<open>k\<close>.
\<close>

lemma zscore_degenerate_flags_none:
  assumes "np_std (map snd data) = 0"
  shows "zscore_outlier_indices k data = []"
proof -
  have "map np_abs (zscore (map (\<lambda>lv. Some (snd lv)) data)) = map (\<lambda>lv. None) data"
    by (simp add: zscore_def omit_nan_Some zscore_entry_def assms np_abs_def)
  then have "zscore_outlier_indices k data =
      map fst (filter (\<lambda>lz. f_less (Some k) (snd lz)) (zip (map fst data) (map (\<lambda>lv. None) data)))"
    by (simp add: zscore_outlier_indices_def)
  also have "\<dots> = []"
    by (auto simp: filter_empty_conv f_less_def dest!: set_zip_rightD)
  finally show ?thesis .
qed

section \<open>Population and sample deviation\<close>

lemma sumsq_nonneg: "0 \<le> sumsq vs"
  by (auto simp: sumsq_def intro!: sum_list_nonneg)

lemma st_std_describe: "st_std (describe (map Some vs)) = pd_std vs"
  using omit_nan_Some [of "\<lambda>v. v" vs] by (simp add: describe_def Let_def)

text \<open>
  C10, as the code has it. The cleaning pass divides by the population deviation
  (denominator \<open>n\<close>), the statistics report the sample deviation (denominator
  \<open>n - 1\<close>). For at least two values with a non-zero deviation the reported deviation
  is the larger one, and for every value other than the mean the ingestion-time
  z-score differs from the z-score computed with the reported deviation.
\<close>

theorem ingestion_z_differs:
  assumes "2 \<le> length vs" and "np_std vs \<noteq> 0" and "x \<noteq> mean vs"
  shows "\<exists>z s. zscore_entry vs (Some x) = Some z \<and>
               z = (x - mean vs) / sqrt (sumsq vs / real (length vs)) \<and>
               st_std (describe (map Some vs)) = Some s \<and>
               s = sqrt (sumsq vs / real (length vs - 1)) \<and>
               np_std vs < s \<and>
               sample_z vs x = Some ((x - mean vs) / s) \<and>
               z \<noteq> (x - mean vs) / s"
proof -
  let ?n = "length vs"
  let ?a = "sqrt (sumsq vs / real ?n)" and ?b = "sqrt (sumsq vs / real (?n - 1))"
  have a: "np_std vs = ?a" by (simp add: np_std_def)
  have "sumsq vs \<noteq> 0" using assms(2) by (auto simp: np_std_def)
  then have pos: "0 < sumsq vs" using sumsq_nonneg [of vs] by simp
  have n1: "0 < real (?n - 1)" and n2: "real (?n - 1) < real ?n" and n0: "0 < real ?n"
    using assms(1) by auto
  have "0 < real ?n * real (?n - 1)" using n0 n1 by (rule mult_pos_pos)
  with n2 pos have "sumsq vs / real ?n < sumsq vs / real (?n - 1)"
    by (intro divide_strict_left_mono)
  then have lt: "?a < ?b" by simp
  have a0: "?a \<noteq> 0" using assms(2) a by simp
  have b: "pd_std vs = Some ?b" using assms(1) by (simp add: pd_std_def)
  have d: "x - mean vs \<noteq> 0" using assms(3) by simp
  have ne: "(x - mean vs) / ?a \<noteq> (x - mean vs) / ?b"
  proof
    assume "(x - mean vs) / ?a = (x - mean vs) / ?b"
    then have "?a = ?b" using d divide_cancel_left [of "x - mean vs" ?a ?b] by blast
    with lt show False by (metis less_irrefl)
  qed
  show ?thesis
    using a a0 b lt ne by (simp add: zscore_entry_def st_std_describe sample_z_def)
qed

theorem ingestion_z_differs_witness:
  "2 \<le> length [20, 22 :: real] \<and> np_std [20, 22] \<noteq> 0 \<and> (20 :: real) \<noteq> mean [20, 22] \<and>
   (\<exists>z s. zscore_entry [20, 22] (Some 20) = Some z \<and>
          st_std (describe (map Some [20, 22])) = Some s \<and> np_std [20, 22] < s \<and>
          z \<noteq> (20 - mean [20, 22]) / s)"
proof -
  have h: "2 \<le> length [20, 22 :: real]" "np_std [20, 22] \<noteq> 0" "(20 :: real) \<noteq> mean [20, 22]"
    by (simp_all add: std_two mean_two)
  from ingestion_z_differs [OF h] show ?thesis using h by blast
qed

text \<open>
  C10 as stated fails for a value that equals the mean: among 1, 2, 3 the value 2
  has the z-score 0 at ingestion and the z-score 0 with the reported deviation.
\<close>

theorem ingestion_z_equal_counterexample:
  "2 \<le> length [1, 2, 3 :: real] \<and> np_std [1, 2, 3] \<noteq> 0 \<and>
   zscore_entry [1, 2, 3] (Some 2) = Some 0 \<and>
   st_std (describe (map Some [1, 2, 3])) = Some 1 \<and>
   sample_z [1, 2, 3] 2 = Some 0"
proof -
  have m: "mean [1, 2, 3] = 2" by (simp add: mean_def)
  have s: "sumsq [1, 2, 3] = 2" by (simp add: sumsq_def m)
  show ?thesis
    using st_std_describe [of "[1, 2, 3]"]
    by (simp add: zscore_entry_def np_std_def s m pd_std_def sample_z_def)
qed


section \<open>IQR outliers\<close>

lemma interp_bounds:
  assumes "sorted s" "0 \<le> h" "h \<le> real (length s - 1)" "s \<noteq> []"
  shows "s ! nat \<lfloor>h\<rfloor> \<le> interp s h" "interp s h \<le> s ! min (nat \<lfloor>h\<rfloor> + 1) (length s - 1)"
proof -
  let ?lo = "nat \<lfloor>h\<rfloor>" and ?hi = "min (nat \<lfloor>h\<rfloor> + 1) (length s - 1)"
  have lo: "real ?lo \<le> h" "h < real ?lo + 1"
    using assms(2) by linarith+
  have "?lo \<le> length s - 1" using assms(3) lo by linarith
  moreover have "0 < length s" using assms(4) by simp
  ultimately have "?lo \<le> ?hi" "?hi < length s" by linarith+
  then have d: "s ! ?lo \<le> s ! ?hi" using assms(1) by (simp add: sorted_nth_mono)
  have f0: "0 \<le> h - real ?lo" and f1: "h - real ?lo \<le> 1" using lo by linarith+
  show "s ! ?lo \<le> interp s h"
    using d f0 by (simp add: interp_def)
  have "(h - real ?lo) * (s ! ?hi - s ! ?lo) \<le> 1 * (s ! ?hi - s ! ?lo)"
    using d f1 by (intro mult_right_mono) auto
  then show "interp s h \<le> s ! ?hi"
    by (simp add: interp_def)
qed

lemma interp_mono:
  assumes "sorted s" "s \<noteq> []" "0 \<le> h1" "h1 \<le> h2" "h2 \<le> real (length s - 1)"
  shows "interp s h1 \<le> interp s h2"
proof (cases "nat \<lfloor>h1\<rfloor> = nat \<lfloor>h2\<rfloor>")
  case True
  let ?lo = "nat \<lfloor>h2\<rfloor>" and ?hi = "min (nat \<lfloor>h2\<rfloor> + 1) (length s - 1)"
  have lo: "real ?lo \<le> h2" using assms by linarith
  have "?lo \<le> length s - 1" using assms(5) lo by linarith
  moreover have "0 < length s" using assms(2) by simp
  ultimately have "?lo \<le> ?hi" "?hi < length s" by linarith+
  then have d: "0 \<le> s ! ?hi - s ! ?lo" using assms(1) by (simp add: sorted_nth_mono)
  have "(h1 - real ?lo) * (s ! ?hi - s ! ?lo) \<le> (h2 - real ?lo) * (s ! ?hi - s ! ?lo)"
    using d assms(4) by (intro mult_right_mono) auto
  then show ?thesis by (simp add: interp_def True)
next
  case False
  have "nat \<lfloor>h1\<rfloor> \<le> nat \<lfloor>h2\<rfloor>" using assms(4) by (simp add: floor_mono nat_mono)
  with False have lt: "nat \<lfloor>h1\<rfloor> + 1 \<le> nat \<lfloor>h2\<rfloor>" by simp
  have lo2: "real (nat \<lfloor>h2\<rfloor>) \<le> h2" using assms by linarith
  have "0 < length s" using assms(2) by simp
  then have in2: "nat \<lfloor>h2\<rfloor> < length s" using assms(5) lo2 by linarith
  have "interp s h1 \<le> s ! min (nat \<lfloor>h1\<rfloor> + 1) (length s - 1)"
    using assms by (intro interp_bounds) auto
  also have "\<dots> \<le> s ! nat \<lfloor>h2\<rfloor>"
    using assms(1) lt in2 by (intro sorted_nth_mono) auto
  also have "\<dots> \<le> interp s h2"
    using assms by (intro interp_bounds) auto
  finally show ?thesis .
qed

lemma quantile_interp:
  "xs \<noteq> [] \<Longrightarrow> quantile q xs = Some (interp (sort xs) (q * real (length xs - 1)))"
  by (simp add: quantile_def interp_def Let_def)

lemma quartiles_ordered:
  assumes "xs \<noteq> []"
  shows "\<exists>a b. quantile (1/4) xs = Some a \<and> quantile (3/4) xs = Some b \<and> a \<le> b"
proof -
  have "sort xs \<noteq> []" using assms by (metis length_0_conv length_sort)
  then have "interp (sort xs) (1/4 * real (length xs - 1)) \<le> interp (sort xs) (3/4 * real (length xs - 1))"
    by (intro interp_mono) auto
  then show ?thesis using assms by (simp add: quantile_interp)
qed

lemma iqr_flags_antitone:
  assumes "k1 \<le> k2"
  shows "set (iqr_outlier_indices k2 data) \<subseteq> set (iqr_outlier_indices k1 data)"
proof (cases "data = []")
  case True
  then show ?thesis by (simp add: iqr_outlier_indices_def)
next
  case False
  then obtain a b where q: "quantile (1/4) (map snd data) = Some a"
      "quantile (3/4) (map snd data) = Some b" "a \<le> b"
    using quartiles_ordered [of "map snd data"] by auto
  have "k1 * (b - a) \<le> k2 * (b - a)" using assms q(3) by (intro mult_right_mono) auto
  then show ?thesis
    by (auto simp: iqr_outlier_indices_def q Let_def f_sub_def f_add_def f_mul_def f_less_def)
qed

lemma iloc_subset:
  assumes "set js \<subseteq> set is" and "iloc is df = Inr r1"
  shows "\<exists>r2. iloc js df = Inr r2 \<and> set r2 \<subseteq> set r1"
proof -
  have all: "list_all (\<lambda>i. i < length (rows df)) is" and r1: "r1 = map (\<lambda>i. snd (rows df ! i)) is"
    using assms(2) by (auto simp: iloc_def split: if_splits)
  have "list_all (\<lambda>i. i < length (rows df)) js"
    using all assms(1) by (auto simp: list_all_iff)
  then have "iloc js df = Inr (map (\<lambda>i. snd (rows df ! i)) js)"
    by (simp add: iloc_def)
  moreover have "set (map (\<lambda>i. snd (rows df ! i)) js) \<subseteq> set r1"
    using assms(1) r1 by auto
  ultimately show ?thesis by blast
qed

lemma outliers_iqr:
  "outliers st \<lparr>arg_field = fo, arg_method = Some ''iqr'', arg_k = Some k\<rparr> = Inr r \<Longrightarrow>
     \<exists>df f. cleaned_df st = Some df \<and> f \<in> set (columns df) \<and>
            f = outliers_field \<lparr>arg_field = fo, arg_method = Some ''iqr'', arg_k = Some k\<rparr> \<and>
            iloc (iqr_outlier_indices k (field_data f df)) df = Inr (outliers_list r) \<and>
            jsonify_records (columns df) (outliers_list r)"
  by (auto simp: outliers_def Let_def outliers_method_def outliers_k_def
      split: option.splits if_splits sum.splits)

lemma jsonify_records_subset:
  assumes "set r2 \<subseteq> set r1" and "jsonify_records cols r1"
  shows "jsonify_records cols r2"
  using assms by (auto simp: jsonify_records_def list_all_iff split: if_splits)

text \<open>
  C9. IQR outlier detection is antitone in \<open>k\<close>: for \<open>k1 \<le> k2\<close> the values flagged
  with \<open>k2\<close> are among those flagged with \<open>k1\<close>; and when the request with \<open>k1\<close>
  returns records, the request with \<open>k2\<close> returns records too, all of them among
  those returned for \<open>k1\<close>.
\<close>

theorem iqr_antitone:
  assumes "k1 \<le> k2"
  shows "set (iqr_outlier_indices k2 data) \<subseteq> set (iqr_outlier_indices k1 data) \<and>
         (\<forall>r1. outliers st \<lparr>arg_field = fo, arg_method = Some ''iqr'', arg_k = Some k1\<rparr> = Inr r1 \<longrightarrow>
            (\<exists>r2. outliers st \<lparr>arg_field = fo, arg_method = Some ''iqr'', arg_k = Some k2\<rparr> = Inr r2 \<and>
                  set (outliers_list r2) \<subseteq> set (outliers_list r1)))"
proof (intro conjI allI impI)
  show "set (iqr_outlier_indices k2 data) \<subseteq> set (iqr_outlier_indices k1 data)"
    using assms by (rule iqr_flags_antitone)
next
  fix r1
  assume "outliers st \<lparr>arg_field = fo, arg_method = Some ''iqr'', arg_k = Some k1\<rparr> = Inr r1"
  then obtain df f where df: "cleaned_df st = Some df" and f: "f \<in> set (columns df)"
      and fo: "f = outliers_field \<lparr>arg_field = fo, arg_method = Some ''iqr'', arg_k = Some k1\<rparr>"
      and i1: "iloc (iqr_outlier_indices k1 (field_data f df)) df = Inr (outliers_list r1)"
      and j1: "jsonify_records (columns df) (outliers_list r1)"
    using outliers_iqr by blast
  obtain recs where i2: "iloc (iqr_outlier_indices k2 (field_data f df)) df = Inr recs"
      and sub: "set recs \<subseteq> set (outliers_list r1)"
    using iloc_subset [OF iqr_flags_antitone [OF assms] i1] by blast
  have j2: "jsonify_records (columns df) recs"
    using sub j1 by (rule jsonify_records_subset)
  have f2: "outliers_field \<lparr>arg_field = fo, arg_method = Some ''iqr'', arg_k = Some k2\<rparr> = f"
    using fo by (simp add: outliers_field_def)
  have "outliers st \<lparr>arg_field = fo, arg_method = Some ''iqr'', arg_k = Some k2\<rparr> =
      Inr \<lparr>r_method = ''iqr'', r_field = f, r_k = k2, outlier_count = length recs, outliers_list = recs\<rparr>"
    using df f i2 j2 by (simp add: outliers_def Let_def f2 outliers_method_def outliers_k_def)
  then show "\<exists>r2. outliers st \<lparr>arg_field = fo, arg_method = Some ''iqr'', arg_k = Some k2\<rparr> = Inr r2 \<and>
                  set (outliers_list r2) \<subseteq> set (outliers_list r1)"
    using sub by simp
qed

lemma iqr_five: "iqr_outlier_indices (3/2) [(0, 100), (1, 10), (2, 10), (3, 10), (4, 10)] = [0]"
  by (simp add: iqr_outlier_indices_def q1_five q3_five Let_def f_sub_def f_add_def f_mul_def f_less_def)

lemma outliers_five_iqr:
  "outliers (load_and_clean_data isoformat_stub raw_five init_state)
       \<lparr>arg_field = None, arg_method = Some ''iqr'', arg_k = Some (3/2)\<rparr> =
     Inr \<lparr>r_method = ''iqr'', r_field = ''temperature'', r_k = 3/2, outlier_count = 1,
          outliers_list = [reading 0 (Some 100) None]\<rparr>"
  by (simp add: outliers_def load_and_clean_data_def Let_def outliers_field_def outliers_method_def
      outliers_k_def columns_zscore_clean temperature_only columns_five data_five iqr_five iloc_five
      del: One_nat_def)

theorem iqr_antitone_witness:
  "(3/2 :: real) \<le> 3 \<and>
   set (iqr_outlier_indices 3 [(0, 1), (1, 2), (2, 3), (3, 4), (4, 10)]) \<subseteq>
     set (iqr_outlier_indices (3/2) [(0, 1), (1, 2), (2, 3), (3, 4), (4, 10)]) \<and>
   (\<exists>r2. outliers (load_and_clean_data isoformat_stub raw_five init_state)
            \<lparr>arg_field = None, arg_method = Some ''iqr'', arg_k = Some 3\<rparr> = Inr r2 \<and>
         set (outliers_list r2) \<subseteq> {reading 0 (Some 100) None})"
proof -
  have h: "(3/2 :: real) \<le> 3" by simp
  note t = iqr_antitone [OF h, of "[(0, 1), (1, 2), (2, 3), (3, 4), (4, 10)]"
      "load_and_clean_data isoformat_stub raw_five init_state" None]
  have a: "set (iqr_outlier_indices 3 [(0, 1), (1, 2), (2, 3), (3, 4), (4, 10)]) \<subseteq>
     set (iqr_outlier_indices (3/2) [(0, 1), (1, 2), (2, 3), (3, 4), (4, 10)])"
    using t by (rule conjunct1)
  have "\<exists>r2. outliers (load_and_clean_data isoformat_stub raw_five init_state)
            \<lparr>arg_field = None, arg_method = Some ''iqr'', arg_k = Some 3\<rparr> = Inr r2 \<and>
         set (outliers_list r2) \<subseteq> set (outliers_list
           \<lparr>r_method = ''iqr'', r_field = ''temperature'', r_k = 3/2, outlier_count = 1,
            outliers_list = [reading 0 (Some 100) None]\<rparr>)"
    using t outliers_five_iqr by blast
  then show ?thesis using h a by simp
qed


subsection \<open>\<open>raw_many\<close>\<close>

lemma length_alternating: "length (alternating n) = 2 * n"
  by (induction n) (simp_all add: alternating_def)

lemma set_alternating:
  "r \<in> set (alternating n) \<Longrightarrow> r = reading 0 (Some 20) None \<or> r = reading 1 (Some 22) None"
  by (auto simp: alternating_def split: if_splits)

lemma temperatures_alternating:
  "omit_nan (map (cell ''temperature'') (alternating n)) = concat (replicate n [20, 22])"
  by (induction n) (simp_all add: alternating_def omit_nan_def)

lemma sum_alternating: "sum_list (concat (replicate n [20, 22 :: real])) = 42 * real n"
  by (induction n) (simp_all add: algebra_simps)

lemma length_temperatures: "length (concat (replicate n [20, 22 :: real])) = 2 * n"
  by (induction n) simp_all

lemma mean_alternating: "0 < n \<Longrightarrow> mean (concat (replicate n [20, 22])) = 21"
  by (simp add: mean_def sum_alternating length_temperatures)

lemma squares_alternating:
  "sum_list (map (\<lambda>x. (x - 21)\<^sup>2) (concat (replicate n [20, 22 :: real]))) = 2 * real n"
  by (induction n) (simp_all add: algebra_simps)

lemma std_alternating: "0 < n \<Longrightarrow> np_std (concat (replicate n [20, 22])) = 1"
  by (simp add: np_std_def sumsq_def mean_alternating squares_alternating length_temperatures)

lemma columns_many: "columns raw_many = [''timestamp'', ''temperature'']"
  by (simp add: raw_many_def)

lemma snd_rows_read_csv: "map snd (rows (read_csv cs rs)) = rs"
  by (simp add: read_csv_def)

lemma rows_many_readings:
  assumes "lr \<in> set (rows raw_many)"
  shows "snd lr = reading 0 (Some 20) None \<or> snd lr = reading 1 (Some 22) None"
proof -
  have "snd lr \<in> set (map snd (rows raw_many))" using assms by simp
  then have "snd lr \<in> set (alternating 750)"
    by (simp only: raw_many_def snd_rows_read_csv)
  then show ?thesis by (rule set_alternating)
qed

lemma complete_many: "rows (complete_rows raw_many) = rows raw_many"
proof -
  have "list_all (\<lambda>c. cell c (snd lr) \<noteq> None) [''temperature'']" if "lr \<in> set (rows raw_many)" for lr
    using rows_many_readings [OF that] by auto
  then have "filter (\<lambda>lr. list_all (\<lambda>c. cell c (snd lr) \<noteq> None) [''temperature'']) (rows raw_many) = rows raw_many"
    by (intro filter_True) blast
  then show ?thesis
    by (simp add: complete_rows_def temperature_only columns_many dropna_def select_columns_def)
qed

lemma values_many:
  "omit_nan (column ''temperature'' (complete_rows raw_many)) = concat (replicate 750 [20, 22])"
proof -
  have "column ''temperature'' (complete_rows raw_many) =
      map (cell ''temperature'') (map snd (rows raw_many))"
    by (simp add: column_def complete_many)
  then show ?thesis
    by (simp only: raw_many_def snd_rows_read_csv temperatures_alternating)
qed

lemma clean_many: "rows (zscore_clean raw_many) = rows raw_many"
proof -
  have "keeps [''temperature''] (complete_rows raw_many) (snd lr)" if "lr \<in> set (rows raw_many)" for lr
    using rows_many_readings [OF that]
    by (auto simp: keeps_five values_many zscore_entry_def std_alternating mean_alternating
        np_abs_def f_less_def)
  then have "filter (\<lambda>lr. keeps [''temperature''] (complete_rows raw_many) (snd lr)) (rows raw_many) =
      rows raw_many"
    by (intro filter_True) blast
  then show ?thesis
    by (simp add: rows_zscore_clean temperature_only columns_many complete_many)
qed

lemma length_many: "length (rows raw_many) = 1500"
  by (simp add: raw_many_def read_csv_def length_alternating)

lemma to_document_reading:
  "''timestamp'' \<in> set cols \<Longrightarrow> timestamp (to_document f cols (reading t x y)) = Some (Iso (f t))"
  by (simp add: to_document_def reading_def)

lemma collection_many:
  "length (collection (load_and_clean_data isoformat_stub raw_many init_state)) = 1500"
  "jsonify_documents (collection (load_and_clean_data isoformat_stub raw_many init_state))"
proof -
  show "length (collection (load_and_clean_data isoformat_stub raw_many init_state)) = 1500"
    by (simp add: load_and_clean_data_def Let_def clean_many length_many)
  have "timestamp (to_document isoformat_stub [''timestamp'', ''temperature''] (snd lr)) \<noteq> Some NaT"
    if "lr \<in> set (rows raw_many)" for lr
    using rows_many_readings [OF that] by (auto simp: to_document_reading)
  then show "jsonify_documents (collection (load_and_clean_data isoformat_stub raw_many init_state))"
    by (simp add: load_and_clean_data_def Let_def clean_many jsonify_documents_def list_all_iff
        columns_zscore_clean temperature_only columns_many)
qed


section \<open>Pagination\<close>

lemma length_page:
  assumes "0 < l" and "0 \<le> s"
  shows "int (length (cursor_limit l (cursor_skip s xs))) =
           (if s < int (length xs) then min (int (length xs) - s) l else 0)"
  using assms by (auto simp: cursor_limit_def cursor_skip_def min_def)

lemma observations_page:
  "observations st a =
     (if jsonify_documents (page st a)
      then Inr \<lparr>count = count_documents (build_query a) (collection st),
                returned = length (page st a), items = page st a\<rparr>
      else Inl Exception)"
  by (simp add: observations_def page_def Let_def)

lemma jsonify_sublist:
  assumes "jsonify_documents ds" and "set es \<subseteq> set ds"
  shows "jsonify_documents es"
  using assms by (auto simp: jsonify_documents_def list_all_iff)

lemma set_page: "set (page st a) \<subseteq> set (collection st)"
proof -
  have "set (cursor_limit l xs) \<subseteq> set xs" for l and xs :: "doc_time observation list"
    by (auto simp: cursor_limit_def dest: in_set_takeD)
  moreover have "set (cursor_skip s xs) \<subseteq> set xs" for s and xs :: "doc_time observation list"
    by (auto simp: cursor_skip_def dest: in_set_dropD)
  ultimately show ?thesis
    unfolding page_def find_def by (meson filter_is_subset order_trans)
qed

lemma find_no_filter [simp]:
  "find (build_query no_filter) docs = docs"
  "count_documents (build_query no_filter) docs = length docs"
  by (simp_all add: find_def count_documents_def matches_no_filter)

lemma jsonify_two:
  "jsonify_documents (collection (load_and_clean_data isoformat_stub raw_two init_state))"
  by (simp add: collection_two jsonify_documents_def)

text \<open>
  C5, as the code has it. Take a request whose limit, after the cap at 1000, is at
  least 1 and whose skip is at least 0. The operation answers with a page unless a
  record of the page has a NaT timestamp (then it answers 500), and it does answer
  when no stored record has one. When it answers, the page holds
  \<open>min (total - skip) limit\<close> records for \<open>skip < total\<close> and none otherwise, and the
  reported total is the number of records that match the filter, the same for all
  limits and skips.
\<close>

theorem page_size:
  assumes "0 < effective_limit a" and "0 \<le> effective_skip a"
  shows "((\<exists>r. observations st a = Inr r) \<longleftrightarrow> jsonify_documents (page st a)) \<and>
         (jsonify_documents (collection st) \<longrightarrow> (\<exists>r. observations st a = Inr r)) \<and>
         (\<forall>r. observations st a = Inr r \<longrightarrow>
            int (returned r) =
              (if effective_skip a < int (count r)
               then min (int (count r) - effective_skip a) (effective_limit a)
               else 0) \<and>
            count r = count_documents (build_query a) (collection st) \<and>
            (\<forall>l s r'. observations st (a\<lparr>arg_limit := l, arg_skip := s\<rparr>) = Inr r' \<longrightarrow>
                      count r' = count r))"
proof (intro conjI allI impI)
  show "(\<exists>r. observations st a = Inr r) \<longleftrightarrow> jsonify_documents (page st a)"
    by (simp add: observations_page)
next
  assume "jsonify_documents (collection st)"
  then have "jsonify_documents (page st a)"
    using set_page by (rule jsonify_sublist)
  then show "\<exists>r. observations st a = Inr r"
    by (simp add: observations_page)
next
  fix r assume r: "observations st a = Inr r"
  then have c: "count r = count_documents (build_query a) (collection st)"
    and n: "returned r = length (page st a)"
    by (auto simp: observations_page split: if_splits)
  show "count r = count_documents (build_query a) (collection st)" by (rule c)
  show "int (returned r) =
          (if effective_skip a < int (count r)
           then min (int (count r) - effective_skip a) (effective_limit a)
           else 0)"
    using length_page [OF assms, of "find (build_query a) (collection st)"]
    by (simp add: c n page_def find_def count_documents_def)
  fix l s r' assume "observations st (a\<lparr>arg_limit := l, arg_skip := s\<rparr>) = Inr r'"
  then have "count r' = count_documents (build_query a) (collection st)"
    by (auto simp: observations_page split: if_splits)
  then show "count r' = count r" by (simp add: c)
qed

theorem page_size_witness:
  "0 < effective_limit (no_filter\<lparr>arg_limit := Some 1\<rparr>) \<and>
   0 \<le> effective_skip (no_filter\<lparr>arg_limit := Some 1\<rparr>) \<and>
   (\<exists>r. observations (load_and_clean_data isoformat_stub raw_two init_state)
          (no_filter\<lparr>arg_limit := Some 1\<rparr>) = Inr r \<and>
        count r = 2 \<and> returned r = 1)"
proof -
  let ?a = "no_filter\<lparr>arg_limit := Some 1\<rparr>"
  let ?st = "load_and_clean_data isoformat_stub raw_two init_state"
  have l: "effective_limit ?a = 1" and s: "effective_skip ?a = 0"
    by (simp_all add: effective_limit_def effective_skip_def no_filter_def)
  have h: "0 < effective_limit ?a" "0 \<le> effective_skip ?a"
    by (simp_all add: l s)
  note t = page_size [OF h, of ?st]
  obtain r where r: "observations ?st ?a = Inr r"
    using t jsonify_two by blast
  have c: "count r = 2"
    using t r by (simp add: collection_two)
  have "int (returned r) = 1"
    using t r by (simp add: l s c)
  then show ?thesis using h r c by simp
qed

text \<open>
  C5 as stated fails for the limit 0, which the store reads as no limit: on the two
  stored records of \<open>raw_two\<close> the page holds both, not \<open>min (2 - 0) 0 = 0\<close>. (A
  negative limit or skip cannot satisfy the formula either.)
\<close>

theorem page_size_limit_0_counterexample:
  "effective_limit (no_filter\<lparr>arg_limit := Some 0\<rparr>) = 0 \<and>
   effective_skip (no_filter\<lparr>arg_limit := Some 0\<rparr>) = 0 \<and>
   (\<exists>r. observations (load_and_clean_data isoformat_stub raw_two init_state)
          (no_filter\<lparr>arg_limit := Some 0\<rparr>) = Inr r \<and>
        count r = 2 \<and> returned r = 2 \<and>
        int (returned r) \<noteq>
          (if effective_skip (no_filter\<lparr>arg_limit := Some 0\<rparr>) < int (count r)
           then min (int (count r) - effective_skip (no_filter\<lparr>arg_limit := Some 0\<rparr>))
                    (effective_limit (no_filter\<lparr>arg_limit := Some 0\<rparr>))
           else 0))"
proof -
  let ?a = "no_filter\<lparr>arg_limit := Some 0\<rparr>"
  let ?st = "load_and_clean_data isoformat_stub raw_two init_state"
  have l: "effective_limit ?a = 0" and s: "effective_skip ?a = 0"
    by (simp_all add: effective_limit_def effective_skip_def no_filter_def)
  have p: "page ?st ?a = collection ?st"
    by (simp add: page_def l s cursor_limit_def cursor_skip_def)
  have "observations ?st ?a = Inr \<lparr>count = 2, returned = 2, items = collection ?st\<rparr>"
    by (simp add: observations_page p jsonify_two) (simp add: collection_two)
  then show ?thesis by (simp add: l s)
qed


section \<open>Limit and skip\<close>

lemma length_cursor_limit: "0 < l \<Longrightarrow> int (length (cursor_limit l xs)) \<le> l"
  by (simp add: cursor_limit_def)

lemma page_no_filter:
  "page st (no_filter\<lparr>arg_limit := l\<rparr>) =
     cursor_limit (effective_limit (no_filter\<lparr>arg_limit := l\<rparr>)) (collection st)"
  "page st (no_filter\<lparr>arg_skip := s\<rparr>) =
     cursor_limit 100 (cursor_skip (effective_skip (no_filter\<lparr>arg_skip := s\<rparr>)) (collection st))"
  by (simp_all add: page_def cursor_skip_def effective_skip_def effective_limit_def)
     (simp_all add: no_filter_def)

text \<open>
  C6, as the code has it. For a request whose limit is left out or at least 1 (so
  that the limit after the cap is positive), a page that the operation answers
  with holds at most 1000 records, and at most as many as the capped limit,
  whatever the client asked for. A skip that the request leaves out is 0: the
  page starts at the first match. A skip that the request gives reaches the store
  as it is: a skip of \<open>s \<ge> 0\<close> drops the first \<open>s\<close> matches, a negative skip is not
  read as 0 but drops all but the last \<open>-s\<close> matches.
\<close>

theorem limit_and_skip:
  "(0 < effective_limit a \<longrightarrow>
      (\<forall>r. observations st a = Inr r \<longrightarrow>
         returned r \<le> 1000 \<and> int (returned r) \<le> effective_limit a \<and>
         returned r = length (items r) \<and> items r = page st a)) \<and>
   (arg_skip a = None \<longrightarrow>
      page st a = cursor_limit (effective_limit a) (find (build_query a) (collection st))) \<and>
   (\<forall>s. arg_skip a = Some s \<and> 0 \<le> s \<longrightarrow>
      page st a =
        cursor_limit (effective_limit a) (drop (nat s) (find (build_query a) (collection st)))) \<and>
   (\<forall>s. arg_skip a = Some s \<and> s < 0 \<longrightarrow>
      page st a =
        cursor_limit (effective_limit a)
          (drop (nat (int (length (find (build_query a) (collection st))) + s))
             (find (build_query a) (collection st))))"
proof -
  have 1: "returned r \<le> 1000 \<and> int (returned r) \<le> effective_limit a \<and>
         returned r = length (items r) \<and> items r = page st a"
    if l: "0 < effective_limit a" and r: "observations st a = Inr r" for r
  proof -
    from r have i: "items r = page st a" and n: "returned r = length (page st a)"
      by (auto simp: observations_page split: if_splits)
    have b: "int (length (page st a)) \<le> effective_limit a"
      using l by (simp add: page_def length_cursor_limit)
    have "effective_limit a \<le> 1000" by (simp add: effective_limit_def)
    with b have "length (page st a) \<le> 1000" by linarith
    then show ?thesis using b i n by simp
  qed
  have 2: "page st a = cursor_limit (effective_limit a) (find (build_query a) (collection st))"
    if "arg_skip a = None"
    using that by (simp add: page_def effective_skip_def cursor_skip_def)
  have 3: "page st a =
        cursor_limit (effective_limit a) (drop (nat s) (find (build_query a) (collection st)))"
    if "arg_skip a = Some s \<and> 0 \<le> s" for s
    using that by (simp add: page_def effective_skip_def cursor_skip_def)
  have 4: "page st a =
        cursor_limit (effective_limit a)
          (drop (nat (int (length (find (build_query a) (collection st))) + s))
             (find (build_query a) (collection st)))"
    if "arg_skip a = Some s \<and> s < 0" for s
    using that by (simp add: page_def effective_skip_def cursor_skip_def)
  show ?thesis using 1 2 3 4 by blast
qed

theorem limit_and_skip_witness:
  "0 < effective_limit (no_filter\<lparr>arg_limit := Some 5000\<rparr>) \<and>
   arg_skip (no_filter\<lparr>arg_limit := Some 5000\<rparr>) = None \<and>
   (\<exists>r. observations (load_and_clean_data isoformat_stub raw_many init_state)
          (no_filter\<lparr>arg_limit := Some 5000\<rparr>) = Inr r \<and> returned r = 1000) \<and>
   length (page (load_and_clean_data isoformat_stub raw_two init_state)
     (no_filter\<lparr>arg_skip := Some 1\<rparr>)) = 1 \<and>
   length (page (load_and_clean_data isoformat_stub raw_two init_state)
     (no_filter\<lparr>arg_skip := Some (- 1)\<rparr>)) = 1"
proof -
  let ?a = "no_filter\<lparr>arg_limit := Some 5000\<rparr>"
  let ?many = "load_and_clean_data isoformat_stub raw_many init_state"
  let ?two = "load_and_clean_data isoformat_stub raw_two init_state"
  have l: "effective_limit ?a = 1000" and s: "arg_skip ?a = None"
    by (simp_all add: effective_limit_def no_filter_def)
  have p: "page ?many ?a = take 1000 (collection ?many)"
    using limit_and_skip [of ?a ?many] s by (simp add: l cursor_limit_def)
  then have n: "length (page ?many ?a) = 1000"
    by (simp add: collection_many)
  have "jsonify_documents (page ?many ?a)"
    using collection_many(2) set_page by (rule jsonify_sublist)
  then have r: "observations ?many ?a =
      Inr \<lparr>count = count_documents (build_query ?a) (collection ?many),
           returned = 1000, items = page ?many ?a\<rparr>"
    by (simp add: observations_page n)
  have s1: "arg_skip (no_filter\<lparr>arg_skip := Some 1\<rparr>) = Some 1 \<and> (0::int) \<le> 1"
    and s2: "arg_skip (no_filter\<lparr>arg_skip := Some (- 1)\<rparr>) = Some (- 1) \<and> (- 1 :: int) < 0"
    by simp_all
  have e: "effective_limit (no_filter\<lparr>arg_skip := x\<rparr>) = 100" for x
    by (simp add: effective_limit_def no_filter_def)
  have p1: "length (page ?two (no_filter\<lparr>arg_skip := Some 1\<rparr>)) = 1"
    using limit_and_skip [of "no_filter\<lparr>arg_skip := Some 1\<rparr>" ?two] s1
    by (simp add: e cursor_limit_def collection_two)
  have p2: "length (page ?two (no_filter\<lparr>arg_skip := Some (- 1)\<rparr>)) = 1"
    using limit_and_skip [of "no_filter\<lparr>arg_skip := Some (- 1)\<rparr>" ?two] s2
    by (simp add: e cursor_limit_def collection_two)
  show ?thesis using l s r p1 p2 by simp
qed

text \<open>
  C6 as stated fails twice. The limit 0 passes the cap of line 115 and is no limit
  to the store: on the 1500 stored records of \<open>raw_many\<close> the page holds all 1500,
  more than the ceiling. And the skip -1 is not treated as 0: on the two stored
  records of \<open>raw_two\<close> the page holds the last record only, with the skip 0 both.
\<close>

theorem limit_0_negative_skip_counterexample:
  "effective_limit (no_filter\<lparr>arg_limit := Some 0\<rparr>) \<le> 1000 \<and>
   (\<exists>r. observations (load_and_clean_data isoformat_stub raw_many init_state)
          (no_filter\<lparr>arg_limit := Some 0\<rparr>) = Inr r \<and> returned r = 1500) \<and>
   effective_skip (no_filter\<lparr>arg_skip := Some (- 1)\<rparr>) = - 1 \<and>
   (\<exists>r. observations (load_and_clean_data isoformat_stub raw_two init_state)
          (no_filter\<lparr>arg_skip := Some (- 1)\<rparr>) = Inr r \<and> returned r = 1) \<and>
   (\<exists>r. observations (load_and_clean_data isoformat_stub raw_two init_state)
          (no_filter\<lparr>arg_skip := Some 0\<rparr>) = Inr r \<and> returned r = 2)"
proof -
  let ?many = "load_and_clean_data isoformat_stub raw_many init_state"
  let ?two = "load_and_clean_data isoformat_stub raw_two init_state"
  have l: "effective_limit (no_filter\<lparr>arg_limit := Some 0\<rparr>) = 0"
    by (simp add: effective_limit_def no_filter_def)
  have p0: "page ?many (no_filter\<lparr>arg_limit := Some 0\<rparr>) = collection ?many"
    by (simp add: page_no_filter l cursor_limit_def)
  have 1: "\<exists>r. observations ?many (no_filter\<lparr>arg_limit := Some 0\<rparr>) = Inr r \<and> returned r = 1500"
    by (simp add: observations_page p0 collection_many)
  have s: "effective_skip (no_filter\<lparr>arg_skip := Some (- 1)\<rparr>) = - 1"
      "effective_skip (no_filter\<lparr>arg_skip := Some 0\<rparr>) = 0"
    by (simp_all add: effective_skip_def)
  have pm: "page ?two (no_filter\<lparr>arg_skip := Some (- 1)\<rparr>) = drop 1 (collection ?two)"
    and pz: "page ?two (no_filter\<lparr>arg_skip := Some 0\<rparr>) = collection ?two"
    by (simp_all add: page_no_filter s cursor_limit_def cursor_skip_def collection_two)
  have 2: "\<exists>r. observations ?two (no_filter\<lparr>arg_skip := Some (- 1)\<rparr>) = Inr r \<and> returned r = 1"
    by (simp add: observations_page pm collection_two jsonify_documents_def)
  have 3: "\<exists>r. observations ?two (no_filter\<lparr>arg_skip := Some 0\<rparr>) = Inr r \<and> returned r = 2"
    by (simp add: observations_page pz jsonify_two) (simp add: collection_two)
  show ?thesis using l 1 s(1) 2 3 by simp
qed


section \<open>Statistics without data\<close>

lemma describe_no_values: "omit_nan a = [] \<Longrightarrow> describe a = no_values"
  by (simp add: describe_def no_values_def Let_def pd_std_def quantile_def)

lemma column_no_rows: "rows df = [] \<Longrightarrow> omit_nan (column c df) = []"
  by (simp add: column_def omit_nan_def)

lemma float_dtype_zscore_clean: "float_dtype (zscore_clean raw) = float_dtype raw"
  by (simp add: zscore_clean_def Let_def boolean_index_def complete_rows_def dropna_def
      select_columns_def)

lemma cleaned_df_load: "cleaned_df (load_and_clean_data f raw st) = Some (zscore_clean raw)"
  by (simp add: load_and_clean_data_def Let_def)

text \<open>
  C7, as the code has it. Before any ingestion the statistics operation answers
  "Data not loaded"; with none of the numeric fields among the columns it answers
  "No numeric columns available". On a cleaned set with a numeric field and no
  records it depends on the file: when the file had a data row the columns are
  float64 and the operation answers with statistics, for each field the count 0
  and NaN for every other entry; when the file had a header only the columns are
  of dtype object, the lookup of the mean raises and the operation answers 500.
  After an ingestion the columns are float64 exactly when the file had a data row.
\<close>

theorem stats_without_data:
  "(cleaned_df st = None \<longrightarrow> stats_endpoint st = Inl DataNotLoaded) \<and>
   (\<forall>df. cleaned_df st = Some df \<and> filter (\<lambda>c. c \<in> set (columns df)) numeric_columns = [] \<longrightarrow>
      stats_endpoint st = Inl NoNumericColumns) \<and>
   (\<forall>df. cleaned_df st = Some df \<and> rows df = [] \<and> float_dtype df \<and>
         filter (\<lambda>c. c \<in> set (columns df)) numeric_columns \<noteq> [] \<longrightarrow>
      stats_endpoint st =
        Inr (map (\<lambda>c. (c, no_values)) (filter (\<lambda>c. c \<in> set (columns df)) numeric_columns))) \<and>
   (\<forall>df. cleaned_df st = Some df \<and> \<not> float_dtype df \<and>
         filter (\<lambda>c. c \<in> set (columns df)) numeric_columns \<noteq> [] \<longrightarrow>
      stats_endpoint st = Inl Exception) \<and>
   (\<exists>df. cleaned_df (load_and_clean_data f (read_csv cols rs) st) = Some df \<and>
         float_dtype df = (rs \<noteq> []))"
  by (simp add: stats_endpoint_def Let_def describe_no_values column_no_rows
      cleaned_df_load float_dtype_zscore_clean read_csv_def)

theorem stats_without_data_witness:
  "stats_endpoint init_state = Inl DataNotLoaded \<and>
   stats_endpoint (load_and_clean_data isoformat_stub raw_bare init_state) = Inl NoNumericColumns \<and>
   stats_endpoint (load_and_clean_data isoformat_stub raw_one init_state) =
     Inr [(''temperature'', no_values)] \<and>
   stats_endpoint (load_and_clean_data isoformat_stub raw_header init_state) = Inl Exception"
proof -
  let ?bare = "load_and_clean_data isoformat_stub raw_bare init_state"
  let ?one = "load_and_clean_data isoformat_stub raw_one init_state"
  let ?header = "load_and_clean_data isoformat_stub raw_header init_state"
  have cb: "filter (\<lambda>c. c \<in> set (columns (zscore_clean raw_bare))) numeric_columns = []"
    by (simp add: columns_zscore_clean available_columns_def required_columns_def
        numeric_columns_def raw_bare_def)
  have co: "filter (\<lambda>c. c \<in> set (columns (zscore_clean raw_one))) numeric_columns = [''temperature'']"
    by (simp add: columns_zscore_clean temperature_only columns_one numeric_columns_def)
  have ch: "filter (\<lambda>c. c \<in> set (columns (zscore_clean raw_header))) numeric_columns = [''temperature'']"
    by (simp add: columns_zscore_clean temperature_only raw_header_def numeric_columns_def)
  have fo: "float_dtype (zscore_clean raw_one)"
    by (simp add: float_dtype_zscore_clean raw_one_def read_csv_def)
  have fh: "\<not> float_dtype (zscore_clean raw_header)"
    by (simp add: float_dtype_zscore_clean raw_header_def read_csv_def)
  have 1: "stats_endpoint init_state = Inl DataNotLoaded"
    using stats_without_data [of init_state] by (simp add: init_state_def)
  have 2: "stats_endpoint ?bare = Inl NoNumericColumns"
    using stats_without_data [of ?bare] cleaned_df_load [of isoformat_stub raw_bare init_state] cb
    by blast
  have "cleaned_df ?one = Some (zscore_clean raw_one) \<and> rows (zscore_clean raw_one) = [] \<and>
        float_dtype (zscore_clean raw_one) \<and>
        filter (\<lambda>c. c \<in> set (columns (zscore_clean raw_one))) numeric_columns \<noteq> []"
    using co clean_one fo by (simp add: cleaned_df_load)
  then have "stats_endpoint ?one =
      Inr (map (\<lambda>c. (c, no_values))
        (filter (\<lambda>c. c \<in> set (columns (zscore_clean raw_one))) numeric_columns))"
    using stats_without_data [of ?one] by blast
  then have 3: "stats_endpoint ?one = Inr [(''temperature'', no_values)]"
    by (simp add: co)
  have "cleaned_df ?header = Some (zscore_clean raw_header) \<and> \<not> float_dtype (zscore_clean raw_header) \<and>
        filter (\<lambda>c. c \<in> set (columns (zscore_clean raw_header))) numeric_columns \<noteq> []"
    using ch fh by (simp add: cleaned_df_load)
  then have 4: "stats_endpoint ?header = Inl Exception"
    using stats_without_data [of ?header] by blast
  show ?thesis using 1 2 3 4 by blast
qed

text \<open>
  C7 as stated fails on an empty cleaned set that has a numeric field: the single
  row of \<open>raw_one\<close> is removed at ingestion (its z-score is NaN), nothing is stored,
  and the statistics operation answers with count 0 and NaN entries, not with an
  error.
\<close>

theorem stats_empty_store_counterexample:
  "collection (load_and_clean_data isoformat_stub raw_one init_state) = [] \<and>
   rows_remaining (summary (load_and_clean_data isoformat_stub raw_one init_state)) = 0 \<and>
   stats_endpoint (load_and_clean_data isoformat_stub raw_one init_state) =
     Inr [(''temperature'',
           \<lparr>st_count = 0, st_mean = None, st_std = None, st_min = None,
            st_q25 = None, st_q50 = None, st_q75 = None, st_max = None\<rparr>)]"
proof -
  have fo: "float_dtype (zscore_clean raw_one)"
    by (simp add: float_dtype_zscore_clean raw_one_def read_csv_def)
  show ?thesis
    by (simp add: load_and_clean_data_def Let_def summary_def clean_one stats_endpoint_def
        columns_zscore_clean temperature_only columns_one numeric_columns_def
        describe_no_values column_no_rows no_values_def fo)
qed

end
